theory Spec2Isabelle
  imports Complex_Main
begin

section \<open>Values, exceptions and the environment\<close>

text \<open>
  The two Lambda entry points receive a JSON-decoded event and exchange JSON documents
  with the Canvas API. A JSON object is a Python dictionary, modelled as a map from keys
  to values; \<open>JNull\<close> is Python's \<open>None\<close>; a number is an integer or a float, the float
  being given by the rational it denotes (the code does no arithmetic on the numbers it
  receives). Strings are Python 2's \<open>basestring\<close>.
\<close>

datatype json =
    JNull
  | JBool bool
  | JInt int
  | JFloat rat
  | JStr string
  | JArr "json list"
  | JObj "string \<Rightarrow> json option"

type_synonym dict = "string \<rightharpoonup> json"

text \<open>
  A built-in or library exception (\<open>KeyError\<close>, \<open>TypeError\<close>, a transport error of
  \<open>requests\<close>, ...): the text of its type and the text of the exception.
\<close>

datatype pyerr = PyErr string string

text \<open>
  The exception classes of the repository carry the value they were constructed with (Python 2's
  \<open>ex.message\<close>). \<open>CanvasUploadException\<close> is the class of \<open>upload_url_to_canvas.py\<close>,
  \<open>PollCanvasUploadException\<close> the class of the same name declared in \<open>poll_canvas_upload.py\<close>.
\<close>

datatype exn =
    MissingParameterException json
  | ParameterTypeException json
  | UserNotFoundException json
  | FileSizeExceedsQuotaException json
  | CanvasUploadException json
  | LambdaCallException json
  | UploadDelegationException json
  | UploadTimeoutException json
  | PollCanvasUploadException json
  | PyError pyerr

text \<open>
  What \<open>canvas_api.initiate_file_upload_via_url\<close> can do: raise its own
  \<open>UploadDelegationException\<close>, fail in the HTTP library, or return the decoded response.
\<close>

datatype upload_reply =
    DelegationFailed json
  | UploadFault pyerr
  | UploadResponse json

text \<open>Observable effects of a run: callback POSTs and asynchronous Lambda invocations.\<close>

datatype event =
    CallbackPost string dict
  | LambdaInvoke string string

text \<open>
  The environment answers every request that leaves the process. The functions of
  \<open>canvas_api.py\<close> are HTTP requests and are taken at their boundary. \<open>canvas_get\<close> gives,
  for a URL, the results of the successive GET requests of one run, each paired with the
  reading that \<open>time.time()\<close> gives right after that request; \<open>time_now\<close> is the reading at
  the entry of \<open>poll\<close>. Readings are rationals, and the one addition on them is exact.
  \<open>json_dumps\<close>, \<open>py_repr\<close> and \<open>format_exc\<close> are the library's \<open>json.dumps\<close>, \<open>repr\<close> of a
  float, list or dictionary, and \<open>traceback.format_exc\<close>. What the environment raises is an
  \<open>Exception\<close>. The \<open>print\<close> statements of the code, which only log, are left out, and the
  formatting of a message is taken to succeed.
\<close>

record env =
  time_now :: rat
  canvas_get :: "string \<Rightarrow> ((pyerr + json) \<times> rat) list"
  pull_file :: "json \<Rightarrow> pyerr + json list"
  pull_quota_info :: "json \<Rightarrow> pyerr + json"
  search_users_by_email :: "string \<Rightarrow> pyerr + json list"
  initiate_file_upload_via_url :: "json \<Rightarrow> string \<Rightarrow> string \<Rightarrow> string \<Rightarrow> json \<Rightarrow> upload_reply"
  lambda_invoke :: "string \<Rightarrow> string \<Rightarrow> pyerr + json"
  requests_post :: "string \<Rightarrow> dict \<Rightarrow> pyerr + int"
  json_dumps :: "json \<Rightarrow> string"
  py_repr :: "json \<Rightarrow> string"
  format_exc :: "exn \<Rightarrow> string"

text \<open>A computation: the value returned or the exception raised, and the effects so far.\<close>

type_synonym 'a comp = "(exn + 'a) \<times> event list"

definition bind :: "exn + 'a \<Rightarrow> ('a \<Rightarrow> exn + 'b) \<Rightarrow> exn + 'b" where
  "bind r f = (case r of Inl e \<Rightarrow> Inl e | Inr v \<Rightarrow> f v)"

definition lib :: "pyerr + 'a \<Rightarrow> exn + 'a" where
  "lib r = (case r of Inl e \<Rightarrow> Inl (PyError e) | Inr v \<Rightarrow> Inr v)"

definition cbind :: "'a comp \<Rightarrow> ('a \<Rightarrow> 'b comp) \<Rightarrow> 'b comp" where
  "cbind c f =
     (case c of
        (Inl e, evs) \<Rightarrow> (Inl e, evs)
      | (Inr v, evs) \<Rightarrow> (case f v of (r, evs') \<Rightarrow> (r, evs @ evs')))"

section \<open>Python operations on values\<close>

definition quote :: string where
  "quote = [CHR 0x22]"

definition newline :: string where
  "newline = [CHR 0x0A]"

fun starts_with :: "string \<Rightarrow> string \<Rightarrow> bool" where
  "starts_with [] s = True"
| "starts_with (c # cs) [] = False"
| "starts_with (c # cs) (d # ds) = (c = d \<and> starts_with cs ds)"

text \<open>\<open>needle in hay\<close> for two strings.\<close>

fun str_contains :: "string \<Rightarrow> string \<Rightarrow> bool" where
  "str_contains needle [] = starts_with needle []"
| "str_contains needle (d # ds) = (starts_with needle (d # ds) \<or> str_contains needle ds)"

text \<open>\<open>key in v\<close> for a string \<open>key\<close>: membership in a dictionary's keys, substring of a
  string, element of a list; a \<open>TypeError\<close> on a value that is not iterable.\<close>

fun py_contains :: "string \<Rightarrow> json \<Rightarrow> exn + bool" where
  "py_contains key (JObj m) = Inr (m key \<noteq> None)"
| "py_contains key (JStr s) = Inr (str_contains key s)"
| "py_contains key (JArr xs) = Inr (JStr key \<in> set xs)"
| "py_contains key v = Inl (PyError (PyErr ''TypeError'' ''argument is not iterable''))"

text \<open>\<open>v[key]\<close> for a string \<open>key\<close>.\<close>

fun py_getitem :: "json \<Rightarrow> string \<Rightarrow> exn + json" where
  "py_getitem (JObj m) key =
     (case m key of None \<Rightarrow> Inl (PyError (PyErr ''KeyError'' key)) | Some v \<Rightarrow> Inr v)"
| "py_getitem v key = Inl (PyError (PyErr ''TypeError'' ''indices must be integers''))"

text \<open>\<open>d.get(key)\<close>.\<close>

definition py_get :: "dict \<Rightarrow> string \<Rightarrow> json" where
  "py_get d key = (case d key of None \<Rightarrow> JNull | Some v \<Rightarrow> v)"

definition digit_char :: "nat \<Rightarrow> char" where
  "digit_char d = ''0123456789'' ! d"

function decimal :: "nat \<Rightarrow> string" where
  "decimal n = (if n < 10 then [digit_char n] else decimal (n div 10) @ [digit_char (n mod 10)])"
  by pat_completeness auto
termination
  by (relation "measure id") auto

declare decimal.simps [simp del]

definition str_int :: "int \<Rightarrow> string" where
  "str_int i = (if i < 0 then ''-'' @ decimal (nat (- i)) else decimal (nat i))"

text \<open>The digits, least significant first, with a comma after every third one that has a
  successor.\<close>

fun group3 :: "string \<Rightarrow> string" where
  "group3 (a # b # c # d # ds) = a # b # c # CHR '','' # group3 (d # ds)"
| "group3 ds = ds"

text \<open>\<open>'{:,d}'.format(i)\<close> for an integer.\<close>

definition comma_d :: "int \<Rightarrow> string" where
  "comma_d i =
     (if i < 0 then ''-'' @ rev (group3 (rev (decimal (nat (- i)))))
      else rev (group3 (rev (decimal (nat i)))))"

text \<open>The format specification \<open>,d\<close> applied to a value: the integers (and the booleans, which are
  integers) are formatted, anything else is a \<open>ValueError\<close>.\<close>

fun format_comma_d :: "json \<Rightarrow> exn + string" where
  "format_comma_d (JInt i) = Inr (comma_d i)"
| "format_comma_d (JBool b) = Inr (if b then ''1'' else ''0'')"
| "format_comma_d v = Inl (PyError (PyErr ''ValueError'' ''Unknown format code d''))"

text \<open>\<open>'%s' % v\<close>.\<close>

fun py_str :: "env \<Rightarrow> json \<Rightarrow> string" where
  "py_str e (JStr s) = s"
| "py_str e (JInt i) = str_int i"
| "py_str e JNull = ''None''"
| "py_str e (JBool b) = (if b then ''True'' else ''False'')"
| "py_str e v = py_repr e v"

text \<open>Whether a value can be a dictionary key.\<close>

fun hashable :: "json \<Rightarrow> bool" where
  "hashable (JArr xs) = False"
| "hashable (JObj m) = False"
| "hashable v = True"

section \<open>param_helper.py\<close>

definition validate :: "dict \<Rightarrow> string \<Rightarrow> exn + string" where
  "validate parameter_dictionary parameter_name =
     (case parameter_dictionary parameter_name of
        None \<Rightarrow>
          Inl (MissingParameterException
                 (JStr (''Missing '' @ quote @ parameter_name @ quote @ '' parameter.'')))
      | Some parameter_value \<Rightarrow>
          (case parameter_value of
             JStr s \<Rightarrow> Inr s
           | _ \<Rightarrow>
               Inl (ParameterTypeException
                      (JStr (quote @ parameter_name @ quote @ '' parameter is not a string.'')))))"

section \<open>callback_helper.py\<close>

definition STATUS_INITIATED :: int where "STATUS_INITIATED = 0"
definition STATUS_ERROR :: int where "STATUS_ERROR = 1"
definition STATUS_POLLING :: int where "STATUS_POLLING = 2"
definition STATUS_PENDING :: int where "STATUS_PENDING = 3"
definition STATUS_READY :: int where "STATUS_READY = 4"
definition STATUS_QUOTA_EXCEEDED :: int where "STATUS_QUOTA_EXCEEDED = 5"

definition make_callback_dictionary :: "dict \<Rightarrow> int \<Rightarrow> json \<Rightarrow> dict" where
  "make_callback_dictionary param_dict status_flag status_msg =
     param_dict(''status_flag'' \<mapsto> JInt status_flag, ''status_msg'' \<mapsto> status_msg)"

text \<open>\<open>try: body except Exception as ex: handler\<close>, for a body without effects of its own.\<close>

definition try_except :: "exn + 'a \<Rightarrow> (exn \<Rightarrow> exn + 'a) \<Rightarrow> exn + 'a" where
  "try_except body handler = (case body of Inl ex \<Rightarrow> handler ex | Inr v \<Rightarrow> Inr v)"

text \<open>
  The POST is attempted only for a non-empty string; what \<open>requests.post\<close> raises is printed
  and swallowed.
\<close>

definition make_callback_post :: "env \<Rightarrow> json \<Rightarrow> dict \<Rightarrow> unit comp" where
  "make_callback_post e callback_url param_dict =
     (case callback_url of
        JStr url \<Rightarrow>
          if url \<noteq> [] then
            (try_except
               (bind (lib (requests_post e url param_dict)) (\<lambda>callback_resp. Inr ()))
               (\<lambda>ex. Inr ()),
             [CallbackPost url param_dict])
          else (Inr (), [])
      | _ \<Rightarrow> (Inr (), []))"

section \<open>canvas_api_helper.py\<close>

text \<open>
  The dictionary comprehension \<open>{user['login_id']: user['id'] for user in search_results}\<close>:
  Python 2.7 evaluates the value before the key, a key must be hashable, and a later record
  replaces an earlier one with the same key. Keys that Python identifies across types
  (\<open>1\<close>, \<open>1.0\<close> and \<open>True\<close>) are kept apart here, which the lookup of a string cannot observe.
\<close>

fun login_table :: "json list \<Rightarrow> (json \<rightharpoonup> json) \<Rightarrow> exn + (json \<rightharpoonup> json)" where
  "login_table [] return_dict = Inr return_dict"
| "login_table (user # users) return_dict =
     (case py_getitem user ''id'' of
        Inl ex \<Rightarrow> Inl ex
      | Inr uid \<Rightarrow>
          (case py_getitem user ''login_id'' of
             Inl ex \<Rightarrow> Inl ex
           | Inr login \<Rightarrow>
               if hashable login then login_table users (return_dict(login \<mapsto> uid))
               else Inl (PyError (PyErr ''TypeError'' ''unhashable type''))))"

definition find_exact_match_for_login_id :: "json list \<Rightarrow> string \<Rightarrow> exn + json" where
  "find_exact_match_for_login_id search_results target_login_id =
     bind (login_table search_results Map.empty)
       (\<lambda>return_dict.
          Inr (case return_dict (JStr target_login_id) of None \<Rightarrow> JNull | Some uid \<Rightarrow> uid))"

definition get_canvas_user_id :: "env \<Rightarrow> string \<Rightarrow> exn + json" where
  "get_canvas_user_id e user_email =
     bind (lib (search_users_by_email e user_email))
       (\<lambda>search_results.
          bind (find_exact_match_for_login_id search_results user_email)
            (\<lambda>user_id.
               if user_id = JNull then
                 Inl (UserNotFoundException (JStr (''User '' @ user_email @ '' not found.'')))
               else Inr user_id))"

definition make_quota_exceeded_message :: "env \<Rightarrow> json \<Rightarrow> exn + string" where
  "make_quota_exceeded_message e user_id =
     bind (lib (pull_quota_info e user_id))
       (\<lambda>quota_info.
          bind (py_getitem quota_info ''quota'')
            (\<lambda>quota.
               bind (py_getitem quota_info ''quota_used'')
                 (\<lambda>quota_used.
                    bind (format_comma_d quota)
                      (\<lambda>q.
                         bind (format_comma_d quota_used)
                           (\<lambda>u.
                              Inr (''File size exceeds quota. Quota: '' @ q
                                   @ '' bytes. Quota used: '' @ u @ '' bytes.''))))))"

text \<open>\<open>'\n'.join(('Exception type: %s' % type(ex), 'Exception: %s' % ex, traceback.format_exc()))\<close>\<close>

fun exn_type :: "exn \<Rightarrow> string" where
  "exn_type (MissingParameterException m) = ''<class 'param_helper.MissingParameterException'>''"
| "exn_type (ParameterTypeException m) = ''<class 'param_helper.ParameterTypeException'>''"
| "exn_type (UserNotFoundException m) = ''<class 'canvas_api_helper.UserNotFoundException'>''"
| "exn_type (FileSizeExceedsQuotaException m) =
     ''<class 'upload_url_to_canvas.FileSizeExceedsQuotaException'>''"
| "exn_type (CanvasUploadException m) = ''<class 'upload_url_to_canvas.CanvasUploadException'>''"
| "exn_type (LambdaCallException m) = ''<class 'upload_url_to_canvas.LambdaCallException'>''"
| "exn_type (UploadDelegationException m) = ''<class 'canvas_api.UploadDelegationException'>''"
| "exn_type (UploadTimeoutException m) = ''<class 'poll_canvas_upload.UploadTimeoutException'>''"
| "exn_type (PollCanvasUploadException m) = ''<class 'poll_canvas_upload.CanvasUploadException'>''"
| "exn_type (PyError (PyErr t m)) = t"

fun exn_message :: "exn \<Rightarrow> json" where
  "exn_message (MissingParameterException m) = m"
| "exn_message (ParameterTypeException m) = m"
| "exn_message (UserNotFoundException m) = m"
| "exn_message (FileSizeExceedsQuotaException m) = m"
| "exn_message (CanvasUploadException m) = m"
| "exn_message (LambdaCallException m) = m"
| "exn_message (UploadDelegationException m) = m"
| "exn_message (UploadTimeoutException m) = m"
| "exn_message (PollCanvasUploadException m) = m"
| "exn_message (PyError (PyErr t m)) = JStr m"

definition error_description :: "env \<Rightarrow> exn \<Rightarrow> string" where
  "error_description e ex =
     ''Exception type: '' @ exn_type ex @ newline
     @ ''Exception: '' @ py_str e (exn_message ex) @ newline
     @ format_exc e ex"

text \<open>
  The pattern that ends every reporting branch of the two entry points:
  \<open>callback_helper.make_callback_post(callback_url, return_dict)\<close>, then the function's
  \<open>return return_dict\<close>; and the same with the bare \<open>raise\<close> of the last handler.
\<close>

definition report :: "env \<Rightarrow> json \<Rightarrow> dict \<Rightarrow> dict comp" where
  "report e callback_url return_dict =
     cbind (make_callback_post e callback_url return_dict) (\<lambda>u. (Inr return_dict, []))"

definition report_and_raise :: "env \<Rightarrow> json \<Rightarrow> dict \<Rightarrow> exn \<Rightarrow> dict comp" where
  "report_and_raise e callback_url return_dict ex =
     cbind (make_callback_post e callback_url return_dict) (\<lambda>u. (Inl ex, []))"

section \<open>upload_url_to_canvas.py\<close>

definition UPLOAD_FOLDER_FULL_PATH :: string where
  "UPLOAD_FOLDER_FULL_PATH = ''my files/VideoUploads''"

definition LAMBDA_ARN :: string where
  "LAMBDA_ARN = ''arn:aws:lambda:somelambdaarn''"

text \<open>\<open>response['StatusCode'] in range(200, 300)\<close>\<close>

fun in_range_200_300 :: "json \<Rightarrow> bool" where
  "in_range_200_300 (JInt c) = (200 \<le> c \<and> c < 300)"
| "in_range_200_300 (JFloat x) = (200 \<le> x \<and> x < 300 \<and> x = of_int \<lfloor>x\<rfloor>)"
| "in_range_200_300 v = False"

definition initiate_polling :: "env \<Rightarrow> dict \<Rightarrow> dict comp" where
  "initiate_polling e lambda_params =
     (bind (lib (lambda_invoke e LAMBDA_ARN (json_dumps e (JObj lambda_params))))
        (\<lambda>response.
           bind (py_getitem response ''StatusCode'')
             (\<lambda>status_code.
                if \<not> in_range_200_300 status_code then
                  Inl (LambdaCallException
                         (JStr (''Lambda call returned bad status code: ''
                                @ json_dumps e response @ '' '')))
                else
                  bind (py_getitem response ''ResponseMetadata'')
                    (\<lambda>metadata.
                       bind (py_getitem metadata ''HTTPHeaders'')
                         (\<lambda>headers.
                            bind (py_contains ''x-amz-function-error'' headers)
                              (\<lambda>function_error.
                                 if function_error then
                                   Inl (LambdaCallException
                                          (JStr (''Lambda call returned x-amz-function-error header: ''
                                                 @ json_dumps e response)))
                                 else
                                   bind (py_getitem (JObj lambda_params) ''status_url'')
                                     (\<lambda>status_url.
                                        Inr (make_callback_dictionary lambda_params
                                               STATUS_POLLING status_url))))))),
      [LambdaInvoke LAMBDA_ARN (json_dumps e (JObj lambda_params))])"

fun upload_reply_result :: "upload_reply \<Rightarrow> exn + json" where
  "upload_reply_result (DelegationFailed m) = Inl (UploadDelegationException m)"
| "upload_reply_result (UploadFault err) = Inl (PyError err)"
| "upload_reply_result (UploadResponse resp) = Inr resp"

text \<open>
  The checks of \<open>initiate_upload\<close> on the response of the initiation call, up to
  \<open>status_url = resp['progress']['url']\<close>.
\<close>

definition initiation_status_url :: "json \<Rightarrow> exn + json" where
  "initiation_status_url resp =
     bind (py_contains ''message'' resp)
       (\<lambda>has_message.
     bind (if has_message then
             bind (py_getitem resp ''message'') (\<lambda>m. Inr (m = JStr ''file size exceeds quota''))
           else Inr False)
       (\<lambda>quota_message.
     if quota_message then
       bind (py_getitem resp ''message'') (\<lambda>m. Inl (FileSizeExceedsQuotaException m))
     else
     bind (py_contains ''error'' resp)
       (\<lambda>has_error.
     bind (if has_error then
             bind (py_getitem resp ''error'') (py_contains ''file size exceeds quota limits'')
           else Inr False)
       (\<lambda>quota_error.
     if quota_error then
       bind (py_getitem resp ''error'') (\<lambda>er. Inl (FileSizeExceedsQuotaException er))
     else
     bind (py_contains ''error'' resp)
       (\<lambda>has_error.
     if has_error then
       bind (py_getitem resp ''error'') (\<lambda>er. Inl (CanvasUploadException er))
     else
     bind (py_contains ''progress'' resp)
       (\<lambda>has_progress.
     if \<not> has_progress then
       Inl (CanvasUploadException (JStr ''File upload call did not return a progress object.''))
     else
     bind (py_getitem resp ''progress'')
       (\<lambda>progress.
     bind (py_contains ''url'' progress)
       (\<lambda>has_url.
     if \<not> has_url then
       Inl (CanvasUploadException (JStr ''File upload call did not return a progress URL.''))
     else
     bind (py_getitem resp ''progress'') (\<lambda>progress. py_getitem progress ''url'')))))))))"

text \<open>
  The body of the \<open>try\<close> of \<open>initiate_upload\<close>, together with the value of the local
  \<open>user_id\<close> when it has been assigned (the handler for the quota exception reads it).
\<close>

definition initiate_upload_try :: "env \<Rightarrow> dict \<Rightarrow> json \<Rightarrow> dict comp \<times> json option" where
  "initiate_upload_try e param_dict upload_file_size =
     (case bind (validate param_dict ''file_url'')
             (\<lambda>file_url.
                bind (validate param_dict ''file_display_name'')
                  (\<lambda>display_name.
                     bind (validate param_dict ''user_email'')
                       (\<lambda>user_email.
                          bind (get_canvas_user_id e user_email)
                            (\<lambda>user_id. Inr (file_url, display_name, user_id))))) of
        Inl ex \<Rightarrow> ((Inl ex, []), None)
      | Inr (file_url, display_name, user_id) \<Rightarrow>
          (cbind
             (bind (upload_reply_result
                      (initiate_file_upload_via_url e user_id UPLOAD_FOLDER_FULL_PATH
                         file_url display_name upload_file_size))
                initiation_status_url, [])
             (\<lambda>status_url.
                cbind (initiate_polling e (param_dict(''status_url'' \<mapsto> status_url)))
                  (\<lambda>return_dict.
                     (Inr (make_callback_dictionary return_dict STATUS_INITIATED status_url),
                      []))),
           Some user_id))"

text \<open>The \<open>except\<close> clauses of \<open>initiate_upload\<close>, in the order of the source.\<close>

fun initiate_upload_except :: "env \<Rightarrow> dict \<Rightarrow> json \<Rightarrow> json option \<Rightarrow> exn \<Rightarrow> dict comp" where
  "initiate_upload_except e param_dict callback_url user_id (FileSizeExceedsQuotaException m) =
     (case user_id of
        None \<Rightarrow> (Inl (PyError (PyErr ''UnboundLocalError'' ''user_id'')), [])
      | Some uid \<Rightarrow>
          cbind (make_quota_exceeded_message e uid, [])
            (\<lambda>err_msg.
               report e callback_url
                 (make_callback_dictionary param_dict STATUS_QUOTA_EXCEEDED (JStr err_msg))))"
| "initiate_upload_except e param_dict callback_url user_id (MissingParameterException m) =
     report e callback_url (make_callback_dictionary param_dict STATUS_ERROR m)"
| "initiate_upload_except e param_dict callback_url user_id (ParameterTypeException m) =
     report e callback_url (make_callback_dictionary param_dict STATUS_ERROR m)"
| "initiate_upload_except e param_dict callback_url user_id (UserNotFoundException m) =
     report e callback_url (make_callback_dictionary param_dict STATUS_ERROR m)"
| "initiate_upload_except e param_dict callback_url user_id (CanvasUploadException m) =
     report e callback_url (make_callback_dictionary param_dict STATUS_ERROR m)"
| "initiate_upload_except e param_dict callback_url user_id (LambdaCallException m) =
     report e callback_url (make_callback_dictionary param_dict STATUS_ERROR m)"
| "initiate_upload_except e param_dict callback_url user_id (UploadDelegationException m) =
     report e callback_url (make_callback_dictionary param_dict STATUS_ERROR m)"
| "initiate_upload_except e param_dict callback_url user_id ex =
     report_and_raise e callback_url
       (make_callback_dictionary param_dict STATUS_ERROR (JStr (error_description e ex))) ex"

definition initiate_upload :: "env \<Rightarrow> dict \<Rightarrow> dict comp" where
  "initiate_upload e param_dict =
     (let callback_url = py_get param_dict ''callback_url'';
          upload_file_size = py_get param_dict ''file_size''
      in case initiate_upload_try e param_dict upload_file_size of
           ((Inr return_dict, evs), user_id) \<Rightarrow> (Inr return_dict, evs)
         | ((Inl ex, evs), user_id) \<Rightarrow>
             (case initiate_upload_except e param_dict callback_url user_id ex of
                (r, evs') \<Rightarrow> (r, evs @ evs')))"

definition upload_to_canvas :: "env \<Rightarrow> dict \<Rightarrow> dict comp" where
  "upload_to_canvas e param_dict =
     (case py_get param_dict ''status_url'' of
        JStr status_url \<Rightarrow>
          if status_url \<noteq> [] then initiate_polling e param_dict
          else initiate_upload e param_dict
      | _ \<Rightarrow> initiate_upload e param_dict)"

section \<open>poll_canvas_upload.py\<close>

definition WAIT_INTERVAL :: int where "WAIT_INTERVAL = 15"
definition MAX_WAIT :: int where "MAX_WAIT = 240"

text \<open>
  The \<open>while True\<close> loop. Each pass consumes one result of \<open>canvas_api.canvas_get(status_url)\<close>
  with the clock reading that follows it; the reading is looked at only when the workflow
  state is \<open>queued\<close> or \<open>running\<close>. \<open>time.sleep(WAIT_INTERVAL)\<close> shows in the readings of the
  environment. The loop gives \<open>None\<close> when the environment's list of results ends before the
  loop has left, \<open>Some\<close> of the exception raised or of \<open>(status_resp, upload_status)\<close> at the
  \<open>break\<close>.
\<close>

fun poll_loop :: "string \<Rightarrow> rat \<Rightarrow> ((pyerr + json) \<times> rat) list \<Rightarrow> (exn + json \<times> json) option" where
  "poll_loop status_url max_wait_time [] = None"
| "poll_loop status_url max_wait_time ((fetched, t) # rest) =
     (case lib fetched of
        Inl ex \<Rightarrow> Some (Inl ex)
      | Inr status_resp \<Rightarrow>
          (case py_contains ''workflow_state'' status_resp of
             Inl ex \<Rightarrow> Some (Inl ex)
           | Inr has_state \<Rightarrow>
               if \<not> has_state then
                 Some (Inl (PollCanvasUploadException
                              (JStr (''Progress URL '' @ status_url
                                     @ '' missing workflow_state field''))))
               else
                 (case py_getitem status_resp ''workflow_state'' of
                    Inl ex \<Rightarrow> Some (Inl ex)
                  | Inr upload_status \<Rightarrow>
                      if upload_status \<noteq> JStr ''queued'' \<and> upload_status \<noteq> JStr ''running''
                      then Some (Inr (status_resp, upload_status))
                      else if t > max_wait_time then
                        Some (Inl (UploadTimeoutException
                                     (JStr (''File upload still pending after more than ''
                                            @ str_int MAX_WAIT
                                            @ '' seconds. Status URL: '' @ status_url))))
                      else poll_loop status_url max_wait_time rest)))"

text \<open>The inner \<open>try\<close> that fetches the file descriptor of a completed upload.\<close>

definition file_descriptor_message :: "env \<Rightarrow> json \<Rightarrow> exn + string" where
  "file_descriptor_message e status_resp =
     try_except
       (bind (py_getitem status_resp ''results'')
          (\<lambda>results.
             bind (py_getitem results ''id'')
               (\<lambda>file_id.
                  bind (lib (pull_file e file_id))
                    (\<lambda>files.
                       case files of
                         [] \<Rightarrow> Inl (PyError (PyErr ''IndexError'' ''list index out of range''))
                       | fileDescriptor # others \<Rightarrow> Inr (json_dumps e fileDescriptor)))))
       (\<lambda>ex. Inr ''Error when trying to retrieve Canvas file descriptor for the upload.'')"

text \<open>The statements after the loop: the three branches on the final workflow state.\<close>

definition poll_classify :: "env \<Rightarrow> dict \<Rightarrow> json \<Rightarrow> json \<Rightarrow> json \<Rightarrow> dict comp" where
  "poll_classify e param_dict callback_url status_resp upload_status =
     (if upload_status = JStr ''completed'' then
        cbind (file_descriptor_message e status_resp, [])
          (\<lambda>statusMsg.
             report e callback_url
               (make_callback_dictionary param_dict STATUS_READY (JStr statusMsg)))
      else if upload_status = JStr ''failed'' then
        cbind (py_getitem status_resp ''message'', [])
          (\<lambda>err_msg.
             report e callback_url (make_callback_dictionary param_dict STATUS_ERROR err_msg))
      else
        report e callback_url
          (make_callback_dictionary param_dict STATUS_ERROR
             (JStr (''Progress URL returned unknown workflow_state of ''
                    @ py_str e upload_status @ ''.''))))"

text \<open>The body of the \<open>try\<close> of \<open>poll\<close>.\<close>

definition poll_try :: "env \<Rightarrow> dict \<Rightarrow> json \<Rightarrow> rat \<Rightarrow> (dict comp) option" where
  "poll_try e param_dict callback_url max_wait_time =
     (case validate param_dict ''status_url'' of
        Inl ex \<Rightarrow> Some (Inl ex, [])
      | Inr status_url \<Rightarrow>
          (case poll_loop status_url max_wait_time (canvas_get e status_url) of
             None \<Rightarrow> None
           | Some (Inl ex) \<Rightarrow> Some (Inl ex, [])
           | Some (Inr (status_resp, upload_status)) \<Rightarrow>
               Some (poll_classify e param_dict callback_url status_resp upload_status)))"

text \<open>The \<open>except\<close> clauses of \<open>poll\<close>, in the order of the source.\<close>

fun poll_except :: "env \<Rightarrow> dict \<Rightarrow> json \<Rightarrow> exn \<Rightarrow> dict comp" where
  "poll_except e param_dict callback_url (UploadTimeoutException m) =
     report e callback_url (make_callback_dictionary param_dict STATUS_PENDING m)"
| "poll_except e param_dict callback_url (MissingParameterException m) =
     report e callback_url (make_callback_dictionary param_dict STATUS_ERROR m)"
| "poll_except e param_dict callback_url (ParameterTypeException m) =
     report e callback_url (make_callback_dictionary param_dict STATUS_ERROR m)"
| "poll_except e param_dict callback_url (PollCanvasUploadException m) =
     report e callback_url (make_callback_dictionary param_dict STATUS_ERROR m)"
| "poll_except e param_dict callback_url ex =
     report_and_raise e callback_url
       (make_callback_dictionary param_dict STATUS_ERROR (JStr (error_description e ex))) ex"

text \<open>
  \<open>poll\<close> gives \<open>None\<close> only when the loop does (the environment's list of fetch results is
  too short for the run), and otherwise the mapping returned or the exception that leaves
  \<open>poll\<close>, with the effects.
\<close>

definition poll :: "env \<Rightarrow> dict \<Rightarrow> (dict comp) option" where
  "poll e param_dict =
     (let max_wait_time = time_now e + of_int MAX_WAIT;
          callback_url = py_get param_dict ''callback_url''
      in case poll_try e param_dict callback_url max_wait_time of
           None \<Rightarrow> None
         | Some (Inr return_dict, evs) \<Rightarrow> Some (Inr return_dict, evs)
         | Some (Inl ex, evs) \<Rightarrow>
             (case poll_except e param_dict callback_url ex of
                (r, evs') \<Rightarrow> Some (r, evs @ evs')))"

section \<open>Notions used in the statements\<close>

text \<open>The callback POSTs expected for a callback URL and a result mapping: one POST to a
  non-empty string, none otherwise.\<close>

fun callbacks :: "json \<Rightarrow> dict \<Rightarrow> event list" where
  "callbacks (JStr url) return_dict = (if url \<noteq> [] then [CallbackPost url return_dict] else [])"
| "callbacks v return_dict = []"

text \<open>A fetch of the progress URL that returned an object whose workflow state is \<open>queued\<close> or
  \<open>running\<close>.\<close>

fun in_progress :: "pyerr + json \<Rightarrow> bool" where
  "in_progress (Inr (JObj status_resp)) =
     (status_resp ''workflow_state'' = Some (JStr ''queued'')
      \<or> status_resp ''workflow_state'' = Some (JStr ''running''))"
| "in_progress fetched = False"

text \<open>Fetches that all find the upload in progress, each followed by a clock reading that
  is not beyond the end of the wait.\<close>

definition still_waiting :: "rat \<Rightarrow> ((pyerr + json) \<times> rat) list \<Rightarrow> bool" where
  "still_waiting max_wait_time fetches =
     list_all (\<lambda>(fetched, t). in_progress fetched \<and> t \<le> max_wait_time) fetches"

text \<open>A user record as \<open>find_exact_match_for_login_id\<close> reads it: an object with an \<open>id\<close>
  and a \<open>login_id\<close> that can be a dictionary key.\<close>

fun user_record :: "json \<Rightarrow> bool" where
  "user_record (JObj user) =
     (case user ''id'' of
        None \<Rightarrow> False
      | Some uid \<Rightarrow> (case user ''login_id'' of None \<Rightarrow> False | Some login \<Rightarrow> hashable login))"
| "user_record v = False"

fun login_of :: "json \<Rightarrow> json option" where
  "login_of (JObj user) = user ''login_id''"
| "login_of v = None"

section \<open>An example environment\<close>

text \<open>
  A Canvas account with two logins that differ in case only, an upload that is queued, then
  running, then completed, a dispatcher that accepts, and a callback endpoint that cannot be
  reached.
\<close>

definition progress :: "string \<Rightarrow> json" where
  "progress workflow_state =
     JObj [''workflow_state'' \<mapsto> JStr workflow_state, ''message'' \<mapsto> JNull,
           ''results'' \<mapsto> JObj [''id'' \<mapsto> JInt 8765]]"

definition lambda_response :: "int \<Rightarrow> json" where
  "lambda_response status_code =
     JObj [''StatusCode'' \<mapsto> JInt status_code,
           ''ResponseMetadata'' \<mapsto> JObj [''HTTPHeaders'' \<mapsto> JObj Map.empty]]"

definition demo_env :: env where
  "demo_env =
     \<lparr> time_now = 1000,
       canvas_get =
         (\<lambda>url. [(Inr (progress ''queued''), 1001), (Inr (progress ''running''), 1017),
                 (Inr (progress ''completed''), 1033)]),
       pull_file = (\<lambda>file_id. Inr [JObj [''id'' \<mapsto> file_id, ''display_name'' \<mapsto> JStr ''clip.mp4'']]),
       pull_quota_info =
         (\<lambda>user_id. Inr (JObj [''quota'' \<mapsto> JInt 52428800, ''quota_used'' \<mapsto> JInt 52427776])),
       search_users_by_email =
         (\<lambda>user_email. Inr [JObj [''id'' \<mapsto> JInt 654, ''login_id'' \<mapsto> JStr ''a@b.com''],
                           JObj [''id'' \<mapsto> JInt 655, ''login_id'' \<mapsto> JStr ''A@B.com'']]),
       initiate_file_upload_via_url =
         (\<lambda>user_id folder_path source_url display_name file_size.
            UploadResponse (JObj [''progress'' \<mapsto> JObj [''url'' \<mapsto> JStr ''https://canvas/progress/5432'']])),
       lambda_invoke = (\<lambda>function_name payload. Inr (lambda_response 202)),
       requests_post = (\<lambda>url data. Inl (PyErr ''ConnectionError'' ''unreachable'')),
       json_dumps = (\<lambda>v. ''<json>''),
       py_repr = (\<lambda>v. ''<repr>''),
       format_exc = (\<lambda>ex. ''<traceback>'') \<rparr>"

definition upload_params :: dict where
  "upload_params =
     [''file_url'' \<mapsto> JStr ''https://host/clip.mp4'', ''file_display_name'' \<mapsto> JStr ''clip.mp4'',
      ''user_email'' \<mapsto> JStr ''a@b.com'', ''callback_url'' \<mapsto> JStr ''https://client/done'']"

definition poll_params :: dict where
  "poll_params =
     [''status_url'' \<mapsto> JStr ''https://canvas/progress/5432'',
      ''callback_url'' \<mapsto> JStr ''https://client/done'']"

text \<open>The same, with a completed upload seen long after the end of the wait.\<close>

definition late_env :: env where
  "late_env =
     demo_env\<lparr>canvas_get :=
       (\<lambda>url. [(Inr (progress ''queued''), 1001), (Inr (progress ''completed''), 5000)])\<rparr>"

text \<open>The same, with an upload that is still running when the wait ends.\<close>

definition slow_env :: env where
  "slow_env =
     demo_env\<lparr>canvas_get :=
       (\<lambda>url. [(Inr (progress ''queued''), 1001), (Inr (progress ''running''), 1241)])\<rparr>"

text \<open>The same, with a file descriptor that cannot be fetched.\<close>

definition no_descriptor_env :: env where
  "no_descriptor_env = demo_env\<lparr>pull_file := (\<lambda>file_id. Inl (PyErr ''ConnectionError'' ''reset''))\<rparr>"

text \<open>Parameters without a status URL that carry a status flag of an earlier result.\<close>

definition stale_params :: dict where
  "stale_params = [''callback_url'' \<mapsto> JStr ''https://client/done'', ''status_flag'' \<mapsto> JInt 0]"

text \<open>The example environment with a dispatcher that answers with status code 500.\<close>

definition rejecting_env :: env where
  "rejecting_env = demo_env\<lparr>lambda_invoke := (\<lambda>function_name payload. Inr (lambda_response 500))\<rparr>"

text \<open>The example environment with a dispatcher that answers with status code 202 and the
  header that reports an error of the invoked function.\<close>

definition function_error_env :: env where
  "function_error_env =
     demo_env\<lparr>lambda_invoke :=
       (\<lambda>function_name payload.
          Inr (JObj [''StatusCode'' \<mapsto> JInt 202,
                     ''ResponseMetadata'' \<mapsto>
                       JObj [''HTTPHeaders'' \<mapsto>
                               JObj [''x-amz-function-error'' \<mapsto> JStr ''Unhandled'']]]))\<rparr>"

text \<open>The example environment with an initiation that fails on the quota, in the two shapes
  of the response.\<close>

definition quota_message_env :: env where
  "quota_message_env =
     demo_env\<lparr>initiate_file_upload_via_url :=
       (\<lambda>user_id folder_path source_url display_name file_size.
          UploadResponse (JObj [''message'' \<mapsto> JStr ''file size exceeds quota'']))\<rparr>"

definition quota_error_env :: env where
  "quota_error_env =
     demo_env\<lparr>initiate_file_upload_via_url :=
       (\<lambda>user_id folder_path source_url display_name file_size.
          UploadResponse (JObj [''error'' \<mapsto> JStr ''The file size exceeds quota limits: 2048 bytes'']))\<rparr>"

text \<open>The first of them, with quota information that cannot be fetched.\<close>

definition quota_unreachable_env :: env where
  "quota_unreachable_env =
     quota_message_env\<lparr>pull_quota_info := (\<lambda>user_id. Inl (PyErr ''ConnectionError'' ''reset''))\<rparr>"

text \<open>Parameters whose email matches the logins of the example account only when case is
  ignored, and parameters whose email is a proper part of a login.\<close>

definition other_case_params :: dict where
  "other_case_params = upload_params(''user_email'' \<mapsto> JStr ''a@B.com'')"

definition partial_email_params :: dict where
  "partial_email_params = upload_params(''user_email'' \<mapsto> JStr ''a@b.co'')"

section \<open>The callback reporter\<close>

lemma make_callback_post_eq:
  "make_callback_post e callback_url param_dict = (Inr (), callbacks callback_url param_dict)"
  by (cases callback_url)
     (simp_all add: make_callback_post_def try_except_def bind_def lib_def split: sum.splits)

lemma report_eq:
  "report e callback_url rd = (Inr rd, callbacks callback_url rd)"
  by (simp add: report_def cbind_def make_callback_post_eq)

lemma report_and_raise_eq:
  "report_and_raise e callback_url rd ex = (Inl ex, callbacks callback_url rd)"
  by (simp add: report_and_raise_def cbind_def make_callback_post_eq)

lemma make_callback_post_transport:
  "make_callback_post (e\<lparr>requests_post := f\<rparr>) callback_url rd = make_callback_post e callback_url rd"
  by (simp add: make_callback_post_eq)

lemma py_str_transport: "py_str (e\<lparr>requests_post := f\<rparr>) v = py_str e v"
  by (cases v) simp_all

lemma error_description_transport:
  "error_description (e\<lparr>requests_post := f\<rparr>) ex = error_description e ex"
  by (simp add: error_description_def py_str_transport)

lemma poll_except_transport:
  "poll_except (e\<lparr>requests_post := f\<rparr>) p cb ex = poll_except e p cb ex"
  by (cases ex)
     (simp_all add: report_eq report_and_raise_eq make_callback_post_transport
        error_description_transport)

lemma poll_transport: "poll (e\<lparr>requests_post := f\<rparr>) p = poll e p"
proof -
  have fd: "file_descriptor_message (e\<lparr>requests_post := f\<rparr>) r = file_descriptor_message e r"
    for r
    by (simp add: file_descriptor_message_def cong: list.case_cong)
  have cl: "poll_classify (e\<lparr>requests_post := f\<rparr>) p cb r s = poll_classify e p cb r s"
    for cb r s
    by (simp add: poll_classify_def fd py_str_transport report_eq make_callback_post_transport)
  have tr: "poll_try (e\<lparr>requests_post := f\<rparr>) p cb m = poll_try e p cb m" for cb m
    by (simp add: poll_try_def cl cong: sum.case_cong prod.case_cong option.case_cong)
  show ?thesis
    by (simp add: poll_def tr poll_except_transport
          cong: sum.case_cong prod.case_cong option.case_cong)
qed

lemma initiate_polling_transport:
  "initiate_polling (e\<lparr>requests_post := f\<rparr>) p = initiate_polling e p"
  by (simp add: initiate_polling_def cong: if_cong)

lemma initiate_upload_transport:
  "initiate_upload (e\<lparr>requests_post := f\<rparr>) p = initiate_upload e p"
proof -
  have gu: "get_canvas_user_id (e\<lparr>requests_post := f\<rparr>) m = get_canvas_user_id e m" for m
    by (simp add: get_canvas_user_id_def)
  have tr: "initiate_upload_try (e\<lparr>requests_post := f\<rparr>) p s = initiate_upload_try e p s"
    for s
    by (simp add: initiate_upload_try_def gu initiate_polling_transport
          cong: sum.case_cong prod.case_cong)
  have qm: "make_quota_exceeded_message (e\<lparr>requests_post := f\<rparr>) u
            = make_quota_exceeded_message e u" for u
    by (simp add: make_quota_exceeded_message_def)
  have ex: "initiate_upload_except (e\<lparr>requests_post := f\<rparr>) p cb u x
            = initiate_upload_except e p cb u x" for cb u x
    by (cases x)
       (simp_all add: report_eq report_and_raise_eq make_callback_post_transport
          error_description_transport qm split: option.splits)
  show ?thesis
    by (simp add: initiate_upload_def tr ex cong: sum.case_cong prod.case_cong option.case_cong)
qed

text \<open>
  C8. Whatever the callback URL (absent, \<open>None\<close>, empty, any string or any other value) and
  whatever the payload, \<open>make_callback_post\<close> returns normally, also when \<open>requests.post\<close>
  raises; and the outcome of \<open>poll\<close>, of \<open>initiate_upload\<close> and of \<open>upload_to_canvas\<close>
  (the mapping returned or the exception raised, and the effects) is the same for any two
  behaviours \<open>f\<close> and \<open>g\<close> of the callback transport.
\<close>

theorem callback_never_raises_and_never_changes_the_outcome:
  "fst (make_callback_post e callback_url param_dict) = Inr ()
   \<and> poll (e\<lparr>requests_post := f\<rparr>) p = poll (e\<lparr>requests_post := g\<rparr>) p
   \<and> initiate_upload (e\<lparr>requests_post := f\<rparr>) p = initiate_upload (e\<lparr>requests_post := g\<rparr>) p
   \<and> upload_to_canvas (e\<lparr>requests_post := f\<rparr>) p = upload_to_canvas (e\<lparr>requests_post := g\<rparr>) p"
  by (simp add: make_callback_post_eq poll_transport initiate_upload_transport
        initiate_polling_transport upload_to_canvas_def cong: json.case_cong if_cong)

section \<open>The polling loop\<close>


lemma poll_loop_waiting:
  "still_waiting max_wait_time waiting \<Longrightarrow>
   poll_loop status_url max_wait_time (waiting @ rest) = poll_loop status_url max_wait_time rest"
proof (induction waiting)
  case Nil
  show ?case by simp
next
  case (Cons a waiting)
  obtain fetched t where a: "a = (fetched, t)" by (cases a)
  from Cons.prems a have ip: "in_progress fetched" and t: "t \<le> max_wait_time"
    and w: "still_waiting max_wait_time waiting"
    by (simp_all add: still_waiting_def)
  from ip obtain m where f: "fetched = Inr (JObj m)"
    and m: "m ''workflow_state'' = Some (JStr ''queued'') \<or> m ''workflow_state'' = Some (JStr ''running'')"
    by (cases fetched rule: in_progress.cases) auto
  from m t show ?case
    by (auto simp: a f lib_def Cons.IH [OF w])
qed

lemma poll_loop_terminal:
  "status_resp ''workflow_state'' = Some upload_status \<Longrightarrow>
   upload_status \<noteq> JStr ''queued'' \<Longrightarrow> upload_status \<noteq> JStr ''running'' \<Longrightarrow>
   poll_loop status_url max_wait_time ((Inr (JObj status_resp), t) # rest)
     = Some (Inr (JObj status_resp, upload_status))"
  by (simp add: lib_def)


lemma validate_string:
  "param_dict key = Some (JStr s) \<Longrightarrow> validate param_dict key = Inr s"
  by (simp add: validate_def)

lemma poll_break:
  assumes "param_dict ''status_url'' = Some (JStr status_url)"
    and "poll_loop status_url (time_now e + of_int MAX_WAIT) (canvas_get e status_url)
         = Some (Inr (status_resp, upload_status))"
    and "poll_classify e param_dict (py_get param_dict ''callback_url'') status_resp upload_status
         = (Inr return_dict, evs)"
  shows "poll e param_dict = Some (Inr return_dict, evs)"
  using assms by (simp add: poll_def poll_try_def validate_string)


declare poll_loop.simps(2) [simp del]

lemma file_descriptor_message_total: "\<exists>statusMsg. file_descriptor_message e status_resp = Inr statusMsg"
  by (simp add: file_descriptor_message_def try_except_def split: sum.splits)


lemma file_descriptor_message_failed:
  assumes "status_resp ''results'' = Some results"
    and "py_getitem results ''id'' = Inr file_id"
    and "pull_file e file_id = Inl err"
  shows "file_descriptor_message e (JObj status_resp)
         = Inr ''Error when trying to retrieve Canvas file descriptor for the upload.''"
  using assms by (simp add: file_descriptor_message_def try_except_def bind_def lib_def)

lemma poll_classify_completed:
  assumes "file_descriptor_message e status_resp = Inr statusMsg"
  shows "poll_classify e param_dict callback_url status_resp (JStr ''completed'')
         = (Inr (make_callback_dictionary param_dict STATUS_READY (JStr statusMsg)),
            callbacks callback_url (make_callback_dictionary param_dict STATUS_READY (JStr statusMsg)))"
  using assms by (simp add: poll_classify_def cbind_def report_eq)

lemma poll_completed:
  assumes "param_dict ''status_url'' = Some (JStr status_url)"
    and "canvas_get e status_url = waiting @ (Inr (JObj status_resp), t) # rest"
    and "still_waiting (time_now e + of_int MAX_WAIT) waiting"
    and "status_resp ''workflow_state'' = Some (JStr ''completed'')"
    and "file_descriptor_message e (JObj status_resp) = Inr statusMsg"
  shows "poll e param_dict
         = Some (Inr (make_callback_dictionary param_dict STATUS_READY (JStr statusMsg)),
                 callbacks (py_get param_dict ''callback_url'')
                   (make_callback_dictionary param_dict STATUS_READY (JStr statusMsg)))"
proof -
  have loop: "poll_loop status_url (time_now e + of_int MAX_WAIT) (canvas_get e status_url)
        = Some (Inr (JObj status_resp, JStr ''completed''))"
    using assms(2,3,4) by (simp add: poll_loop_waiting poll_loop_terminal)
  have cl: "poll_classify e param_dict (py_get param_dict ''callback_url'') (JObj status_resp)
              (JStr ''completed'')
            = (Inr (make_callback_dictionary param_dict STATUS_READY (JStr statusMsg)),
               callbacks (py_get param_dict ''callback_url'')
                 (make_callback_dictionary param_dict STATUS_READY (JStr statusMsg)))"
    by (rule poll_classify_completed [OF assms(5)])
  from poll_break [OF assms(1) loop cl] show ?thesis .
qed


lemma poll_terminal_other:
  assumes "param_dict ''status_url'' = Some (JStr status_url)"
    and "canvas_get e status_url = waiting @ (Inr (JObj status_resp), t) # rest"
    and "still_waiting (time_now e + of_int MAX_WAIT) waiting"
    and "status_resp ''workflow_state'' = Some upload_status"
    and "upload_status \<noteq> JStr ''queued''" and "upload_status \<noteq> JStr ''running''"
    and "upload_status \<noteq> JStr ''completed''"
  shows "\<exists>r evs. poll e param_dict = Some (r, evs) \<and>
           (case r of
              Inr return_dict \<Rightarrow> return_dict ''status_flag'' = Some (JInt STATUS_ERROR)
            | Inl ex \<Rightarrow>
                upload_status = JStr ''failed'' \<and> status_resp ''message'' = None
                \<and> evs = callbacks (py_get param_dict ''callback_url'')
                           (make_callback_dictionary param_dict STATUS_ERROR
                              (JStr (error_description e ex))))"
proof -
  let ?cb = "py_get param_dict ''callback_url''"
  have loop: "poll_loop status_url (time_now e + of_int MAX_WAIT) (canvas_get e status_url)
        = Some (Inr (JObj status_resp, upload_status))"
    using assms(2-6) by (simp add: poll_loop_waiting poll_loop_terminal)
  show ?thesis
  proof (cases "upload_status = JStr ''failed'' \<and> status_resp ''message'' = None")
    case True
    then have "poll_classify e param_dict ?cb (JObj status_resp) upload_status
               = (Inl (PyError (PyErr ''KeyError'' ''message'')), [])"
      by (simp add: poll_classify_def cbind_def)
    with loop assms(1) show ?thesis
      using True
      by (simp add: poll_def poll_try_def validate_string report_and_raise_eq)
  next
    case False
    then have "\<exists>msg. poll_classify e param_dict ?cb (JObj status_resp) upload_status
               = (Inr (make_callback_dictionary param_dict STATUS_ERROR msg),
                  callbacks ?cb (make_callback_dictionary param_dict STATUS_ERROR msg))"
      using assms(7) by (auto simp: poll_classify_def cbind_def report_eq)
    then obtain msg where "poll_classify e param_dict ?cb (JObj status_resp) upload_status
               = (Inr (make_callback_dictionary param_dict STATUS_ERROR msg),
                  callbacks ?cb (make_callback_dictionary param_dict STATUS_ERROR msg))" ..
    from poll_break [OF assms(1) loop this] show ?thesis
      by (simp add: make_callback_dictionary_def)
  qed
qed

text \<open>
  C10. Let the fetches of a run of \<open>poll\<close> find the upload in progress, each within the wait,
  and let the next fetch return an object whose workflow state is neither \<open>queued\<close> nor
  \<open>running\<close>. Whatever the clock reading \<open>t\<close> after that fetch (also one beyond the end
  of the wait), \<open>poll\<close> finishes, and a mapping it returns has the flag READY when the state is
  \<open>completed\<close> and ERROR otherwise, never PENDING; the only run that raises is the one where the
  state is \<open>failed\<close> and the response has no \<open>message\<close>, which is reported to the callback
  with the flag ERROR before the exception is raised again.
\<close>

theorem terminal_state_is_never_pending:
  assumes "param_dict ''status_url'' = Some (JStr status_url)"
    and "canvas_get e status_url = waiting @ (Inr (JObj status_resp), t) # rest"
    and "still_waiting (time_now e + of_int MAX_WAIT) waiting"
    and "status_resp ''workflow_state'' = Some upload_status"
    and "upload_status \<noteq> JStr ''queued''" and "upload_status \<noteq> JStr ''running''"
  shows "\<exists>r evs. poll e param_dict = Some (r, evs) \<and>
           (case r of
              Inr return_dict \<Rightarrow>
                return_dict ''status_flag''
                  = Some (JInt (if upload_status = JStr ''completed'' then STATUS_READY
                                else STATUS_ERROR))
                \<and> return_dict ''status_flag'' \<noteq> Some (JInt STATUS_PENDING)
            | Inl ex \<Rightarrow>
                upload_status = JStr ''failed'' \<and> status_resp ''message'' = None
                \<and> evs = callbacks (py_get param_dict ''callback_url'')
                           (make_callback_dictionary param_dict STATUS_ERROR
                              (JStr (error_description e ex))))"
proof (cases "upload_status = JStr ''completed''")
  case True
  obtain statusMsg where "file_descriptor_message e (JObj status_resp) = Inr statusMsg"
    using file_descriptor_message_total by blast
  moreover from assms(4) True have "status_resp ''workflow_state'' = Some (JStr ''completed'')"
    by simp
  ultimately have "poll e param_dict
         = Some (Inr (make_callback_dictionary param_dict STATUS_READY (JStr statusMsg)),
                 callbacks (py_get param_dict ''callback_url'')
                   (make_callback_dictionary param_dict STATUS_READY (JStr statusMsg)))"
    using assms(1,2,3) by (simp add: poll_completed)
  with True show ?thesis
    by (simp add: make_callback_dictionary_def STATUS_READY_def STATUS_PENDING_def)
next
  case False
  from assms False
  have "\<exists>r evs. poll e param_dict = Some (r, evs) \<and>
           (case r of
              Inr return_dict \<Rightarrow> return_dict ''status_flag'' = Some (JInt STATUS_ERROR)
            | Inl ex \<Rightarrow>
                upload_status = JStr ''failed'' \<and> status_resp ''message'' = None
                \<and> evs = callbacks (py_get param_dict ''callback_url'')
                           (make_callback_dictionary param_dict STATUS_ERROR
                              (JStr (error_description e ex))))"
    by (rule poll_terminal_other)
  then obtain r evs where p: "poll e param_dict = Some (r, evs)"
    and c: "case r of
              Inr return_dict \<Rightarrow> return_dict ''status_flag'' = Some (JInt STATUS_ERROR)
            | Inl ex \<Rightarrow>
                upload_status = JStr ''failed'' \<and> status_resp ''message'' = None
                \<and> evs = callbacks (py_get param_dict ''callback_url'')
                           (make_callback_dictionary param_dict STATUS_ERROR
                              (JStr (error_description e ex)))"
    by blast
  from c False
  have "case r of
          Inr return_dict \<Rightarrow>
            return_dict ''status_flag''
              = Some (JInt (if upload_status = JStr ''completed'' then STATUS_READY
                            else STATUS_ERROR))
            \<and> return_dict ''status_flag'' \<noteq> Some (JInt STATUS_PENDING)
        | Inl ex \<Rightarrow>
            upload_status = JStr ''failed'' \<and> status_resp ''message'' = None
            \<and> evs = callbacks (py_get param_dict ''callback_url'')
                       (make_callback_dictionary param_dict STATUS_ERROR
                          (JStr (error_description e ex)))"
    by (cases r) (simp_all add: STATUS_ERROR_def STATUS_PENDING_def)
  with p show ?thesis
    by blast
qed

theorem terminal_state_is_never_pending_witness:
  "poll_params ''status_url'' = Some (JStr ''https://canvas/progress/5432'')
   \<and> canvas_get late_env ''https://canvas/progress/5432''
       = [(Inr (progress ''queued''), 1001)] @ [(Inr (progress ''completed''), 5000)]
   \<and> still_waiting (time_now late_env + of_int MAX_WAIT) [(Inr (progress ''queued''), 1001)]
   \<and> time_now late_env + of_int MAX_WAIT < 5000
   \<and> (\<exists>r evs. poll late_env poll_params = Some (r, evs) \<and>
         (case r of
            Inr return_dict \<Rightarrow> return_dict ''status_flag'' = Some (JInt STATUS_READY)
          | Inl ex \<Rightarrow> False))"
proof -
  let ?resp = "[''workflow_state'' \<mapsto> JStr ''completed'', ''message'' \<mapsto> JNull,
                ''results'' \<mapsto> JObj [''id'' \<mapsto> JInt 8765]]"
  have h1: "poll_params ''status_url'' = Some (JStr ''https://canvas/progress/5432'')"
    by (simp add: poll_params_def)
  have h2: "canvas_get late_env ''https://canvas/progress/5432''
            = [(Inr (progress ''queued''), 1001)] @ (Inr (JObj ?resp), 5000) # []"
    by (simp add: late_env_def progress_def)
  have h3: "still_waiting (time_now late_env + of_int MAX_WAIT) [(Inr (progress ''queued''), 1001)]"
    by (simp add: still_waiting_def late_env_def demo_env_def progress_def MAX_WAIT_def)
  have h4: "?resp ''workflow_state'' = Some (JStr ''completed'')"
    by simp
  have h5: "time_now late_env + of_int MAX_WAIT < 5000"
    by (simp add: late_env_def demo_env_def MAX_WAIT_def)
  from terminal_state_is_never_pending
         [where param_dict = poll_params and e = late_env and status_resp = "?resp"
            and upload_status = "JStr ''completed''", OF h1 h2 h3 h4]
       h1 h2 h3 h5
  show ?thesis
    by (auto simp: progress_def split: sum.splits)
qed



text \<open>
  C4. When a run of \<open>poll\<close> sees the workflow state \<open>completed\<close> and the fetch of the file
  descriptor raises, \<open>poll\<close> still returns the parameters with \<open>status_flag\<close> READY; the
  \<open>status_msg\<close> says that the descriptor could not be retrieved, and no exception leaves
  \<open>poll\<close>.
\<close>

theorem completed_upload_is_ready_without_descriptor:
  assumes "param_dict ''status_url'' = Some (JStr status_url)"
    and "canvas_get e status_url = waiting @ (Inr (JObj status_resp), t) # rest"
    and "still_waiting (time_now e + of_int MAX_WAIT) waiting"
    and "status_resp ''workflow_state'' = Some (JStr ''completed'')"
    and "status_resp ''results'' = Some results"
    and "py_getitem results ''id'' = Inr file_id"
    and "pull_file e file_id = Inl err"
  shows "poll e param_dict
         = Some (Inr (param_dict(''status_flag'' \<mapsto> JInt STATUS_READY, ''status_msg'' \<mapsto> JStr ''Error when trying to retrieve Canvas file descriptor for the upload.'')),
                 callbacks (py_get param_dict ''callback_url'')
                   (param_dict(''status_flag'' \<mapsto> JInt STATUS_READY, ''status_msg'' \<mapsto> JStr ''Error when trying to retrieve Canvas file descriptor for the upload.'')))"
proof -
  have
    "poll e param_dict
         = Some (Inr (make_callback_dictionary param_dict STATUS_READY
                        (JStr ''Error when trying to retrieve Canvas file descriptor for the upload.'')),
                 callbacks (py_get param_dict ''callback_url'')
                   (make_callback_dictionary param_dict STATUS_READY
                      (JStr ''Error when trying to retrieve Canvas file descriptor for the upload.'')))"
  proof -
    from assms(5-7)
    have "file_descriptor_message e (JObj status_resp)
          = Inr ''Error when trying to retrieve Canvas file descriptor for the upload.''"
      by (rule file_descriptor_message_failed)
    with assms(1-4) show ?thesis
      by (rule poll_completed)
  qed
  then show ?thesis
    by (simp only: make_callback_dictionary_def)
qed

text \<open>The definitions that a run in an example environment unfolds.\<close>

lemmas example_defs = demo_env_def late_env_def slow_env_def no_descriptor_env_def
  poll_params_def upload_params_def progress_def lambda_response_def MAX_WAIT_def


theorem completed_upload_is_ready_without_descriptor_witness:
  "pull_file no_descriptor_env (JInt 8765) = Inl (PyErr ''ConnectionError'' ''reset'')
   \<and> poll no_descriptor_env poll_params
       = Some (Inr (poll_params(''status_flag'' \<mapsto> JInt STATUS_READY, ''status_msg'' \<mapsto> JStr ''Error when trying to retrieve Canvas file descriptor for the upload.'')),
               [CallbackPost ''https://client/done''
                  (poll_params(''status_flag'' \<mapsto> JInt STATUS_READY, ''status_msg'' \<mapsto> JStr ''Error when trying to retrieve Canvas file descriptor for the upload.''))])"
proof -
  let ?url = "''https://canvas/progress/5432''"
  let ?obj = "\<lambda>s. [''workflow_state'' \<mapsto> JStr s, ''message'' \<mapsto> JNull,
                     ''results'' \<mapsto> JObj [''id'' \<mapsto> JInt 8765]]"
  have h1: "poll_params ''status_url'' = Some (JStr ?url)"
    by (simp add: poll_params_def)
  have h2: "canvas_get no_descriptor_env ?url
            = [(Inr (progress ''queued''), 1001), (Inr (progress ''running''), 1017)]
              @ (Inr (JObj (?obj ''completed'')), 1033) # []"
    by (simp add: example_defs)
  have h3: "still_waiting (time_now no_descriptor_env + of_int MAX_WAIT)
              [(Inr (progress ''queued''), 1001), (Inr (progress ''running''), 1017)]"
    by (simp add: example_defs still_waiting_def)
  have h4: "(?obj ''completed'') ''workflow_state'' = Some (JStr ''completed'')"
    by simp
  have h5: "(?obj ''completed'') ''results'' = Some (JObj [''id'' \<mapsto> JInt 8765])"
    by simp
  have h6: "py_getitem (JObj [''id'' \<mapsto> JInt 8765]) ''id'' = Inr (JInt 8765)"
    by simp
  have h7: "pull_file no_descriptor_env (JInt 8765) = Inl (PyErr ''ConnectionError'' ''reset'')"
    by (simp add: example_defs)
  have cb: "py_get poll_params ''callback_url'' = JStr ''https://client/done''"
    by (simp add: py_get_def poll_params_def)
  from h7 cb
    completed_upload_is_ready_without_descriptor
      [where param_dict = poll_params and e = no_descriptor_env and status_resp = "?obj ''completed''",
       OF h1 h2 h3 h4 h5 h6 h7]
  show ?thesis
    by simp
qed

section \<open>Validation of the parameters\<close>

lemma validate_fails:
  assumes "\<And>s. param_dict key \<noteq> Some (JStr s)"
  shows "\<exists>m. validate param_dict key = Inl (MissingParameterException m)
           \<or> validate param_dict key = Inl (ParameterTypeException m)"
proof (cases "param_dict key")
  case None
  then show ?thesis by (simp add: validate_def)
next
  case (Some v)
  with assms show ?thesis by (cases v) (auto simp: validate_def)
qed

lemma validate_cases:
  "(\<exists>s. param_dict key = Some (JStr s) \<and> validate param_dict key = Inr s)
   \<or> (\<exists>m. validate param_dict key = Inl (MissingParameterException m))
   \<or> (\<exists>m. validate param_dict key = Inl (ParameterTypeException m))"
proof (cases "param_dict key")
  case None
  then show ?thesis by (simp add: validate_def)
next
  case (Some v)
  then show ?thesis by (cases v) (simp_all add: validate_def)
qed

text \<open>The three validations at the head of \<open>initiate_upload\<close>: the first failure decides.\<close>

lemma initiate_upload_invalid:
  assumes "key \<in> {''file_url'', ''file_display_name'', ''user_email''}"
    and "\<And>s. param_dict key \<noteq> Some (JStr s)"
  shows "\<exists>m. initiate_upload e param_dict
           = (Inr (make_callback_dictionary param_dict STATUS_ERROR m),
              callbacks (py_get param_dict ''callback_url'')
                (make_callback_dictionary param_dict STATUS_ERROR m))"
proof -
  have "\<exists>m. fst (initiate_upload_try e param_dict (py_get param_dict ''file_size''))
             = (Inl (MissingParameterException m), [])
          \<or> fst (initiate_upload_try e param_dict (py_get param_dict ''file_size''))
             = (Inl (ParameterTypeException m), [])"
    using assms validate_cases [of param_dict "''file_url''"]
      validate_cases [of param_dict "''file_display_name''"]
      validate_cases [of param_dict "''user_email''"]
    by (auto simp: initiate_upload_try_def bind_def)
  then show ?thesis
    by (auto simp: initiate_upload_def report_eq split: prod.splits sum.splits)
qed

lemma poll_invalid:
  assumes "\<And>s. param_dict ''status_url'' \<noteq> Some (JStr s)"
  shows "\<exists>m. poll e param_dict
           = Some (Inr (make_callback_dictionary param_dict STATUS_ERROR m),
                   callbacks (py_get param_dict ''callback_url'')
                     (make_callback_dictionary param_dict STATUS_ERROR m))"
  using validate_fails [of param_dict "''status_url''", OF assms]
  by (auto simp: poll_def poll_try_def report_eq)

lemma make_callback_dictionary_keeps:
  "k \<noteq> ''status_flag'' \<Longrightarrow> k \<noteq> ''status_msg'' \<Longrightarrow>
   make_callback_dictionary param_dict status_flag status_msg k = param_dict k"
  by (simp add: make_callback_dictionary_def)

text \<open>
  C7, in the form that holds of the code. Let \<open>key\<close> be the first of \<open>file_url\<close>,
  \<open>file_display_name\<close>, \<open>user_email\<close> that is missing or is not a string. Then
  \<open>initiate_upload\<close>, and with it the entry point \<open>upload_to_canvas\<close> whenever the parameters
  hold no non-empty string under \<open>status_url\<close>, posts to the callback URL and returns a mapping
  with \<open>status_flag\<close> ERROR and, as \<open>status_msg\<close>, the message of the validation for \<open>key\<close>.
  When \<open>status_url\<close> is missing or is not a string, \<open>poll\<close> does the same with the message for
  \<open>status_url\<close>. In all of these the returned mapping agrees with the parameters on every key
  other than \<open>status_flag\<close> and \<open>status_msg\<close>.
\<close>

theorem invalid_parameters_give_error_and_keep_the_other_keys:
  "((key = ''file_url''
       \<or> key = ''file_display_name'' \<and> (\<exists>s. param_dict ''file_url'' = Some (JStr s))
       \<or> key = ''user_email'' \<and> (\<exists>s. param_dict ''file_url'' = Some (JStr s))
           \<and> (\<exists>s. param_dict ''file_display_name'' = Some (JStr s)))
      \<and> (\<forall>s. param_dict key \<noteq> Some (JStr s))
    \<longrightarrow> (\<exists>return_dict evs.
           initiate_upload e param_dict = (Inr return_dict, evs)
           \<and> ((\<forall>s. param_dict ''status_url'' = Some (JStr s) \<longrightarrow> s = [])
                \<longrightarrow> upload_to_canvas e param_dict = (Inr return_dict, evs))
           \<and> evs = callbacks (py_get param_dict ''callback_url'') return_dict
           \<and> return_dict ''status_flag'' = Some (JInt STATUS_ERROR)
           \<and> return_dict ''status_msg''
               = Some (JStr (if param_dict key = None then
                               ''Missing '' @ quote @ key @ quote @ '' parameter.''
                             else quote @ key @ quote @ '' parameter is not a string.''))
           \<and> (\<forall>k. k \<noteq> ''status_flag'' \<and> k \<noteq> ''status_msg'' \<longrightarrow> return_dict k = param_dict k)))
   \<and> ((\<forall>s. param_dict ''status_url'' \<noteq> Some (JStr s))
    \<longrightarrow> (\<exists>return_dict evs.
           poll e param_dict = Some (Inr return_dict, evs)
           \<and> evs = callbacks (py_get param_dict ''callback_url'') return_dict
           \<and> return_dict ''status_flag'' = Some (JInt STATUS_ERROR)
           \<and> return_dict ''status_msg''
               = Some (JStr (if param_dict ''status_url'' = None then
                               ''Missing '' @ quote @ ''status_url'' @ quote @ '' parameter.''
                             else quote @ ''status_url'' @ quote @ '' parameter is not a string.''))
           \<and> (\<forall>k. k \<noteq> ''status_flag'' \<and> k \<noteq> ''status_msg'' \<longrightarrow> return_dict k = param_dict k)))"
proof (intro conjI impI)
  let ?ex = "if param_dict key = None then
               MissingParameterException
                 (JStr (''Missing '' @ quote @ key @ quote @ '' parameter.''))
             else
               ParameterTypeException
                 (JStr (quote @ key @ quote @ '' parameter is not a string.''))"
  let ?m = "JStr (if param_dict key = None then
                    ''Missing '' @ quote @ key @ quote @ '' parameter.''
                  else quote @ key @ quote @ '' parameter is not a string.'')"
  let ?rd = "param_dict(''status_flag'' \<mapsto> JInt STATUS_ERROR, ''status_msg'' \<mapsto> ?m)"
  assume a: "(key = ''file_url''
       \<or> key = ''file_display_name'' \<and> (\<exists>s. param_dict ''file_url'' = Some (JStr s))
       \<or> key = ''user_email'' \<and> (\<exists>s. param_dict ''file_url'' = Some (JStr s))
           \<and> (\<exists>s. param_dict ''file_display_name'' = Some (JStr s)))
      \<and> (\<forall>s. param_dict key \<noteq> Some (JStr s))"
  have v: "validate param_dict key = Inl ?ex"
  proof (cases "param_dict key")
    case None
    then show ?thesis by (simp add: validate_def)
  next
    case (Some given)
    with a show ?thesis by (cases given) (auto simp: validate_def)
  qed
  have "initiate_upload_try e param_dict (py_get param_dict ''file_size'')
        = ((Inl ?ex, []), None)"
    using a v
    by (auto simp: initiate_upload_try_def bind_def validate_def simp del: fun_upd_apply)
  then have iu: "initiate_upload e param_dict
                 = (Inr ?rd, callbacks (py_get param_dict ''callback_url'') ?rd)"
    by (simp add: initiate_upload_def report_eq make_callback_dictionary_def)
  have up: "(\<forall>s. param_dict ''status_url'' = Some (JStr s) \<longrightarrow> s = [])
            \<longrightarrow> upload_to_canvas e param_dict
                = (Inr ?rd, callbacks (py_get param_dict ''callback_url'') ?rd)"
  proof
    assume r: "\<forall>s. param_dict ''status_url'' = Some (JStr s) \<longrightarrow> s = []"
    have "upload_to_canvas e param_dict = initiate_upload e param_dict"
    proof (cases "param_dict ''status_url''")
      case None
      then show ?thesis by (simp add: upload_to_canvas_def py_get_def)
    next
      case (Some given)
      with r show ?thesis by (cases given) (simp_all add: upload_to_canvas_def py_get_def)
    qed
    with iu show "upload_to_canvas e param_dict
                = (Inr ?rd, callbacks (py_get param_dict ''callback_url'') ?rd)"
      by (simp only:)
  qed
  have "?rd ''status_flag'' = Some (JInt STATUS_ERROR)" and "?rd ''status_msg'' = Some ?m"
    and "\<forall>k. k \<noteq> ''status_flag'' \<and> k \<noteq> ''status_msg'' \<longrightarrow> ?rd k = param_dict k"
    by simp_all
  with iu up
  show "\<exists>return_dict evs.
           initiate_upload e param_dict = (Inr return_dict, evs)
           \<and> ((\<forall>s. param_dict ''status_url'' = Some (JStr s) \<longrightarrow> s = [])
                \<longrightarrow> upload_to_canvas e param_dict = (Inr return_dict, evs))
           \<and> evs = callbacks (py_get param_dict ''callback_url'') return_dict
           \<and> return_dict ''status_flag'' = Some (JInt STATUS_ERROR)
           \<and> return_dict ''status_msg''
               = Some (JStr (if param_dict key = None then
                               ''Missing '' @ quote @ key @ quote @ '' parameter.''
                             else quote @ key @ quote @ '' parameter is not a string.''))
           \<and> (\<forall>k. k \<noteq> ''status_flag'' \<and> k \<noteq> ''status_msg'' \<longrightarrow> return_dict k = param_dict k)"
    by blast
next
  let ?ex = "if param_dict ''status_url'' = None then
               MissingParameterException
                 (JStr (''Missing '' @ quote @ ''status_url'' @ quote @ '' parameter.''))
             else
               ParameterTypeException
                 (JStr (quote @ ''status_url'' @ quote @ '' parameter is not a string.''))"
  let ?m = "JStr (if param_dict ''status_url'' = None then
                    ''Missing '' @ quote @ ''status_url'' @ quote @ '' parameter.''
                  else quote @ ''status_url'' @ quote @ '' parameter is not a string.'')"
  let ?rd = "param_dict(''status_flag'' \<mapsto> JInt STATUS_ERROR, ''status_msg'' \<mapsto> ?m)"
  assume a: "\<forall>s. param_dict ''status_url'' \<noteq> Some (JStr s)"
  have v: "validate param_dict ''status_url'' = Inl ?ex"
  proof (cases "param_dict ''status_url''")
    case None
    then show ?thesis by (simp add: validate_def)
  next
    case (Some given)
    with a show ?thesis by (cases given) (auto simp: validate_def)
  qed
  have p: "poll e param_dict = Some (Inr ?rd, callbacks (py_get param_dict ''callback_url'') ?rd)"
    by (simp add: poll_def poll_try_def report_eq make_callback_dictionary_def v)
  have "?rd ''status_flag'' = Some (JInt STATUS_ERROR)" and "?rd ''status_msg'' = Some ?m"
    and "\<forall>k. k \<noteq> ''status_flag'' \<and> k \<noteq> ''status_msg'' \<longrightarrow> ?rd k = param_dict k"
    by simp_all
  with p
  show "\<exists>return_dict evs.
           poll e param_dict = Some (Inr return_dict, evs)
           \<and> evs = callbacks (py_get param_dict ''callback_url'') return_dict
           \<and> return_dict ''status_flag'' = Some (JInt STATUS_ERROR)
           \<and> return_dict ''status_msg''
               = Some (JStr (if param_dict ''status_url'' = None then
                               ''Missing '' @ quote @ ''status_url'' @ quote @ '' parameter.''
                             else quote @ ''status_url'' @ quote @ '' parameter is not a string.''))
           \<and> (\<forall>k. k \<noteq> ''status_flag'' \<and> k \<noteq> ''status_msg'' \<longrightarrow> return_dict k = param_dict k)"
    by blast
qed

theorem invalid_parameters_give_error_and_keep_the_other_keys_witness:
  "stale_params ''file_url'' = None \<and> stale_params ''status_url'' = None
   \<and> (\<exists>return_dict evs.
           initiate_upload demo_env stale_params = (Inr return_dict, evs)
           \<and> upload_to_canvas demo_env stale_params = (Inr return_dict, evs)
           \<and> evs = [CallbackPost ''https://client/done'' return_dict]
           \<and> return_dict ''status_flag'' = Some (JInt STATUS_ERROR)
           \<and> return_dict ''status_msg''
               = Some (JStr (''Missing '' @ quote @ ''file_url'' @ quote @ '' parameter.''))
           \<and> return_dict ''callback_url'' = Some (JStr ''https://client/done''))
   \<and> (\<exists>return_dict evs.
           poll demo_env stale_params = Some (Inr return_dict, evs)
           \<and> evs = [CallbackPost ''https://client/done'' return_dict]
           \<and> return_dict ''status_flag'' = Some (JInt STATUS_ERROR)
           \<and> return_dict ''status_msg''
               = Some (JStr (''Missing '' @ quote @ ''status_url'' @ quote @ '' parameter.''))
           \<and> return_dict ''callback_url'' = Some (JStr ''https://client/done''))"
proof -
  have a: "(''file_url'' = ''file_url''
       \<or> ''file_url'' = ''file_display_name'' \<and> (\<exists>s. stale_params ''file_url'' = Some (JStr s))
       \<or> ''file_url'' = ''user_email'' \<and> (\<exists>s. stale_params ''file_url'' = Some (JStr s))
           \<and> (\<exists>s. stale_params ''file_display_name'' = Some (JStr s)))
      \<and> (\<forall>s. stale_params ''file_url'' \<noteq> Some (JStr s))"
    by (simp add: stale_params_def)
  have b: "\<forall>s. stale_params ''status_url'' \<noteq> Some (JStr s)"
    by (simp add: stale_params_def)
  have r: "\<forall>s. stale_params ''status_url'' = Some (JStr s) \<longrightarrow> s = []"
    by (simp add: stale_params_def)
  have c: "stale_params ''callback_url'' = Some (JStr ''https://client/done'')"
    and cb: "py_get stale_params ''callback_url'' = JStr ''https://client/done''"
    and n: "stale_params ''file_url'' = None" "stale_params ''status_url'' = None"
    by (simp_all add: stale_params_def py_get_def)
  have k: "''callback_url'' \<noteq> ''status_flag'' \<and> ''callback_url'' \<noteq> ''status_msg''"
    by simp
  note initiation = invalid_parameters_give_error_and_keep_the_other_keys
         [where param_dict = stale_params and e = demo_env and key = "''file_url''",
          THEN conjunct1, THEN mp, OF a]
  then obtain r1 where "\<exists>evs.
           initiate_upload demo_env stale_params = (Inr r1, evs)
           \<and> ((\<forall>s. stale_params ''status_url'' = Some (JStr s) \<longrightarrow> s = [])
                \<longrightarrow> upload_to_canvas demo_env stale_params = (Inr r1, evs))
           \<and> evs = callbacks (py_get stale_params ''callback_url'') r1
           \<and> r1 ''status_flag'' = Some (JInt STATUS_ERROR)
           \<and> r1 ''status_msg''
               = Some (JStr (if stale_params ''file_url'' = None then
                               ''Missing '' @ quote @ ''file_url'' @ quote @ '' parameter.''
                             else quote @ ''file_url'' @ quote @ '' parameter is not a string.''))
           \<and> (\<forall>k. k \<noteq> ''status_flag'' \<and> k \<noteq> ''status_msg'' \<longrightarrow> r1 k = stale_params k)" ..
  then obtain evs1 where all1:
          "initiate_upload demo_env stale_params = (Inr r1, evs1)
           \<and> ((\<forall>s. stale_params ''status_url'' = Some (JStr s) \<longrightarrow> s = [])
                \<longrightarrow> upload_to_canvas demo_env stale_params = (Inr r1, evs1))
           \<and> evs1 = callbacks (py_get stale_params ''callback_url'') r1
           \<and> r1 ''status_flag'' = Some (JInt STATUS_ERROR)
           \<and> r1 ''status_msg''
               = Some (JStr (if stale_params ''file_url'' = None then
                               ''Missing '' @ quote @ ''file_url'' @ quote @ '' parameter.''
                             else quote @ ''file_url'' @ quote @ '' parameter is not a string.''))
           \<and> (\<forall>k. k \<noteq> ''status_flag'' \<and> k \<noteq> ''status_msg'' \<longrightarrow> r1 k = stale_params k)" ..
  note r1 = all1 [THEN conjunct1]
  note u1 = all1 [THEN conjunct2, THEN conjunct1, THEN mp, OF r]
  note e1 = all1 [THEN conjunct2, THEN conjunct2, THEN conjunct1]
  note f1 = all1 [THEN conjunct2, THEN conjunct2, THEN conjunct2, THEN conjunct1]
  note m1 = all1 [THEN conjunct2, THEN conjunct2, THEN conjunct2, THEN conjunct2, THEN conjunct1]
  note k1 = all1 [THEN conjunct2, THEN conjunct2, THEN conjunct2, THEN conjunct2, THEN conjunct2,
                  THEN spec, of "''callback_url''", THEN mp, OF k]
  from k1 c have c1: "r1 ''callback_url'' = Some (JStr ''https://client/done'')"
    by (simp only:)
  from e1 cb have e1': "evs1 = [CallbackPost ''https://client/done'' r1]"
    by simp
  from m1 n have m1': "r1 ''status_msg''
               = Some (JStr (''Missing '' @ quote @ ''file_url'' @ quote @ '' parameter.''))"
    by (simp only: simp_thms if_True)
  have first: "\<exists>return_dict evs.
           initiate_upload demo_env stale_params = (Inr return_dict, evs)
           \<and> upload_to_canvas demo_env stale_params = (Inr return_dict, evs)
           \<and> evs = [CallbackPost ''https://client/done'' return_dict]
           \<and> return_dict ''status_flag'' = Some (JInt STATUS_ERROR)
           \<and> return_dict ''status_msg''
               = Some (JStr (''Missing '' @ quote @ ''file_url'' @ quote @ '' parameter.''))
           \<and> return_dict ''callback_url'' = Some (JStr ''https://client/done'')"
  proof (intro exI conjI)
    show "initiate_upload demo_env stale_params = (Inr r1, evs1)" by (rule r1)
    show "upload_to_canvas demo_env stale_params = (Inr r1, evs1)" by (rule u1)
    show "evs1 = [CallbackPost ''https://client/done'' r1]" by (rule e1')
    show "r1 ''status_flag'' = Some (JInt STATUS_ERROR)" by (rule f1)
    show "r1 ''status_msg''
               = Some (JStr (''Missing '' @ quote @ ''file_url'' @ quote @ '' parameter.''))"
      by (rule m1')
    show "r1 ''callback_url'' = Some (JStr ''https://client/done'')" by (rule c1)
  qed
  note polling = invalid_parameters_give_error_and_keep_the_other_keys
         [where param_dict = stale_params and e = demo_env and key = "''file_url''",
          THEN conjunct2, THEN mp, OF b]
  then obtain r2 where "\<exists>evs.
           poll demo_env stale_params = Some (Inr r2, evs)
           \<and> evs = callbacks (py_get stale_params ''callback_url'') r2
           \<and> r2 ''status_flag'' = Some (JInt STATUS_ERROR)
           \<and> r2 ''status_msg''
               = Some (JStr (if stale_params ''status_url'' = None then
                               ''Missing '' @ quote @ ''status_url'' @ quote @ '' parameter.''
                             else quote @ ''status_url'' @ quote @ '' parameter is not a string.''))
           \<and> (\<forall>k. k \<noteq> ''status_flag'' \<and> k \<noteq> ''status_msg'' \<longrightarrow> r2 k = stale_params k)" ..
  then obtain evs2 where all2:
          "poll demo_env stale_params = Some (Inr r2, evs2)
           \<and> evs2 = callbacks (py_get stale_params ''callback_url'') r2
           \<and> r2 ''status_flag'' = Some (JInt STATUS_ERROR)
           \<and> r2 ''status_msg''
               = Some (JStr (if stale_params ''status_url'' = None then
                               ''Missing '' @ quote @ ''status_url'' @ quote @ '' parameter.''
                             else quote @ ''status_url'' @ quote @ '' parameter is not a string.''))
           \<and> (\<forall>k. k \<noteq> ''status_flag'' \<and> k \<noteq> ''status_msg'' \<longrightarrow> r2 k = stale_params k)" ..
  note r2 = all2 [THEN conjunct1]
  note e2 = all2 [THEN conjunct2, THEN conjunct1]
  note f2 = all2 [THEN conjunct2, THEN conjunct2, THEN conjunct1]
  note m2 = all2 [THEN conjunct2, THEN conjunct2, THEN conjunct2, THEN conjunct1]
  note k2 = all2 [THEN conjunct2, THEN conjunct2, THEN conjunct2, THEN conjunct2,
                  THEN spec, of "''callback_url''", THEN mp, OF k]
  from k2 c have c2: "r2 ''callback_url'' = Some (JStr ''https://client/done'')"
    by (simp only:)
  from e2 cb have e2': "evs2 = [CallbackPost ''https://client/done'' r2]"
    by simp
  from m2 n have m2': "r2 ''status_msg''
               = Some (JStr (''Missing '' @ quote @ ''status_url'' @ quote @ '' parameter.''))"
    by (simp only: simp_thms if_True)
  have second: "\<exists>return_dict evs.
           poll demo_env stale_params = Some (Inr return_dict, evs)
           \<and> evs = [CallbackPost ''https://client/done'' return_dict]
           \<and> return_dict ''status_flag'' = Some (JInt STATUS_ERROR)
           \<and> return_dict ''status_msg''
               = Some (JStr (''Missing '' @ quote @ ''status_url'' @ quote @ '' parameter.''))
           \<and> return_dict ''callback_url'' = Some (JStr ''https://client/done'')"
  proof (intro exI conjI)
    show "poll demo_env stale_params = Some (Inr r2, evs2)" by (rule r2)
    show "evs2 = [CallbackPost ''https://client/done'' r2]" by (rule e2')
    show "r2 ''status_flag'' = Some (JInt STATUS_ERROR)" by (rule f2)
    show "r2 ''status_msg''
               = Some (JStr (''Missing '' @ quote @ ''status_url'' @ quote @ '' parameter.''))"
      by (rule m2')
    show "r2 ''callback_url'' = Some (JStr ''https://client/done'')" by (rule c2)
  qed
  from n first second show ?thesis
    by (simp only: simp_thms)
qed

text \<open>
  C7 as stated fails: a \<open>status_flag\<close> that the parameters already carry is replaced, so not
  every key-value pair of the original mapping is still present.
\<close>

theorem original_status_flag_is_overwritten:
  "stale_params ''status_url'' = None
   \<and> stale_params ''status_flag'' = Some (JInt 0)
   \<and> poll demo_env stale_params
       = Some (Inr (make_callback_dictionary stale_params STATUS_ERROR
                      (JStr (''Missing '' @ quote @ ''status_url'' @ quote @ '' parameter.''))),
               [CallbackPost ''https://client/done''
                  (make_callback_dictionary stale_params STATUS_ERROR
                     (JStr (''Missing '' @ quote @ ''status_url'' @ quote @ '' parameter.'')))])
   \<and> make_callback_dictionary stale_params STATUS_ERROR
         (JStr (''Missing '' @ quote @ ''status_url'' @ quote @ '' parameter.'')) ''status_flag''
       = Some (JInt 1)
   \<and> Some (JInt 1) \<noteq> stale_params ''status_flag''"
  by (simp add: stale_params_def poll_def poll_try_def validate_def report_eq py_get_def
        make_callback_dictionary_def STATUS_ERROR_def)

section \<open>Dispatch of the poller\<close>

lemma initiate_polling_accepted:
  assumes "lambda_invoke e LAMBDA_ARN (json_dumps e (JObj lambda_params)) = Inr (JObj response)"
    and "response ''StatusCode'' = Some (JInt status_code)"
    and "200 \<le> status_code" and "status_code < 300"
    and "response ''ResponseMetadata'' = Some (JObj metadata)"
    and "metadata ''HTTPHeaders'' = Some (JObj headers)"
    and "headers ''x-amz-function-error'' = None"
    and "lambda_params ''status_url'' = Some status_url"
  shows "initiate_polling e lambda_params
         = (Inr (make_callback_dictionary lambda_params STATUS_POLLING status_url),
            [LambdaInvoke LAMBDA_ARN (json_dumps e (JObj lambda_params))])"
  using assms by (simp add: initiate_polling_def bind_def lib_def)

lemma initiate_polling_bad_status:
  assumes "lambda_invoke e LAMBDA_ARN (json_dumps e (JObj lambda_params)) = Inr (JObj response)"
    and "response ''StatusCode'' = Some (JInt status_code)"
    and "\<not> (200 \<le> status_code \<and> status_code < 300)"
  shows "initiate_polling e lambda_params
         = (Inl (LambdaCallException
                   (JStr (''Lambda call returned bad status code: ''
                          @ json_dumps e (JObj response) @ '' ''))),
            [LambdaInvoke LAMBDA_ARN (json_dumps e (JObj lambda_params))])"
  using assms by (simp add: initiate_polling_def bind_def lib_def)

lemma initiate_polling_function_error:
  assumes "lambda_invoke e LAMBDA_ARN (json_dumps e (JObj lambda_params)) = Inr (JObj response)"
    and "response ''StatusCode'' = Some (JInt status_code)"
    and "200 \<le> status_code" and "status_code < 300"
    and "response ''ResponseMetadata'' = Some (JObj metadata)"
    and "metadata ''HTTPHeaders'' = Some (JObj headers)"
    and "headers ''x-amz-function-error'' = Some v"
  shows "initiate_polling e lambda_params
         = (Inl (LambdaCallException
                   (JStr (''Lambda call returned x-amz-function-error header: ''
                          @ json_dumps e (JObj response)))),
            [LambdaInvoke LAMBDA_ARN (json_dumps e (JObj lambda_params))])"
  using assms by (simp add: initiate_polling_def bind_def lib_def)

lemma upload_to_canvas_status_url:
  "param_dict ''status_url'' = Some (JStr status_url) \<Longrightarrow> status_url \<noteq> [] \<Longrightarrow>
   upload_to_canvas e param_dict = initiate_polling e param_dict"
  by (simp add: upload_to_canvas_def py_get_def)

text \<open>
  C1, in the form that holds of the code. For parameters with a non-empty string under
  \<open>status_url\<close>, \<open>upload_to_canvas\<close> does one thing: it invokes the polling Lambda function
  asynchronously with those parameters as payload. When the invocation is accepted (a status
  code from 200 to 299 and no \<open>x-amz-function-error\<close> header), it returns the parameters with
  \<open>status_flag\<close> POLLING and the status URL as \<open>status_msg\<close>. It does not run \<open>poll\<close> itself.
\<close>

theorem status_url_is_dispatched_to_the_poller:
  assumes "param_dict ''status_url'' = Some (JStr status_url)" and "status_url \<noteq> []"
  shows
    "snd (upload_to_canvas e param_dict)
       = [LambdaInvoke LAMBDA_ARN (json_dumps e (JObj param_dict))]
     \<and> (lambda_invoke e LAMBDA_ARN (json_dumps e (JObj param_dict)) = Inr (JObj response)
        \<and> response ''StatusCode'' = Some (JInt status_code)
        \<and> 200 \<le> status_code \<and> status_code < 300
        \<and> response ''ResponseMetadata'' = Some (JObj metadata)
        \<and> metadata ''HTTPHeaders'' = Some (JObj headers)
        \<and> headers ''x-amz-function-error'' = None
      \<longrightarrow> fst (upload_to_canvas e param_dict)
          = Inr (param_dict(''status_flag'' \<mapsto> JInt STATUS_POLLING,
                            ''status_msg'' \<mapsto> JStr status_url)))"
proof (intro conjI impI)
  from assms show "snd (upload_to_canvas e param_dict)
       = [LambdaInvoke LAMBDA_ARN (json_dumps e (JObj param_dict))]"
    by (simp add: upload_to_canvas_status_url initiate_polling_def)
next
  assume a: "lambda_invoke e LAMBDA_ARN (json_dumps e (JObj param_dict)) = Inr (JObj response)
        \<and> response ''StatusCode'' = Some (JInt status_code)
        \<and> 200 \<le> status_code \<and> status_code < 300
        \<and> response ''ResponseMetadata'' = Some (JObj metadata)
        \<and> metadata ''HTTPHeaders'' = Some (JObj headers)
        \<and> headers ''x-amz-function-error'' = None"
  then have "lambda_invoke e LAMBDA_ARN (json_dumps e (JObj param_dict)) = Inr (JObj response)"
    and "response ''StatusCode'' = Some (JInt status_code)"
    and "200 \<le> status_code" and "status_code < 300"
    and "response ''ResponseMetadata'' = Some (JObj metadata)"
    and "metadata ''HTTPHeaders'' = Some (JObj headers)"
    and "headers ''x-amz-function-error'' = None"
    by simp_all
  then have "initiate_polling e param_dict
         = (Inr (make_callback_dictionary param_dict STATUS_POLLING (JStr status_url)),
            [LambdaInvoke LAMBDA_ARN (json_dumps e (JObj param_dict))])"
    using assms(1) by (rule initiate_polling_accepted)
  with assms
  show "fst (upload_to_canvas e param_dict)
          = Inr (param_dict(''status_flag'' \<mapsto> JInt STATUS_POLLING,
                            ''status_msg'' \<mapsto> JStr status_url))"
    by (simp add: upload_to_canvas_status_url make_callback_dictionary_def)
qed

lemma initiate_upload_resolved:
  assumes "param_dict ''file_url'' = Some (JStr file_url)"
    and "param_dict ''file_display_name'' = Some (JStr display_name)"
    and "param_dict ''user_email'' = Some (JStr user_email)"
    and "get_canvas_user_id e user_email = Inr user_id"
  shows "initiate_upload e param_dict
         = (case cbind
                   (bind (upload_reply_result
                            (initiate_file_upload_via_url e user_id UPLOAD_FOLDER_FULL_PATH
                               file_url display_name (py_get param_dict ''file_size'')))
                      initiation_status_url, [])
                   (\<lambda>status_url.
                      cbind (initiate_polling e (param_dict(''status_url'' \<mapsto> status_url)))
                        (\<lambda>return_dict.
                           (Inr (make_callback_dictionary return_dict STATUS_INITIATED status_url),
                            []))) of
              (Inr return_dict, evs) \<Rightarrow> (Inr return_dict, evs)
            | (Inl ex, evs) \<Rightarrow>
                (case initiate_upload_except e param_dict (py_get param_dict ''callback_url'')
                        (Some user_id) ex of
                   (r, evs') \<Rightarrow> (r, evs @ evs')))"
  using assms
  by (simp add: initiate_upload_def initiate_upload_try_def validate_string bind_def)

lemma initiate_upload_dispatch:
  assumes "param_dict ''file_url'' = Some (JStr file_url)"
    and "param_dict ''file_display_name'' = Some (JStr display_name)"
    and "param_dict ''user_email'' = Some (JStr user_email)"
    and "get_canvas_user_id e user_email = Inr user_id"
    and "initiate_file_upload_via_url e user_id UPLOAD_FOLDER_FULL_PATH file_url display_name
           (py_get param_dict ''file_size'') = UploadResponse resp"
    and "initiation_status_url resp = Inr status_url"
  shows "initiate_upload e param_dict
         = (case initiate_polling e (param_dict(''status_url'' \<mapsto> status_url)) of
              (Inr return_dict, evs) \<Rightarrow>
                (Inr (make_callback_dictionary return_dict STATUS_INITIATED status_url), evs)
            | (Inl ex, evs) \<Rightarrow>
                (case initiate_upload_except e param_dict (py_get param_dict ''callback_url'')
                        (Some user_id) ex of
                   (r, evs') \<Rightarrow> (r, evs @ evs')))"
proof -
  obtain r evs where p: "initiate_polling e (param_dict(''status_url'' \<mapsto> status_url)) = (r, evs)"
    by (cases "initiate_polling e (param_dict(''status_url'' \<mapsto> status_url))")
  from assms(1-4) have "initiate_upload e param_dict
         = (case cbind
                   (bind (upload_reply_result
                            (initiate_file_upload_via_url e user_id UPLOAD_FOLDER_FULL_PATH
                               file_url display_name (py_get param_dict ''file_size'')))
                      initiation_status_url, [])
                   (\<lambda>status_url.
                      cbind (initiate_polling e (param_dict(''status_url'' \<mapsto> status_url)))
                        (\<lambda>return_dict.
                           (Inr (make_callback_dictionary return_dict STATUS_INITIATED status_url),
                            []))) of
              (Inr return_dict, evs) \<Rightarrow> (Inr return_dict, evs)
            | (Inl ex, evs) \<Rightarrow>
                (case initiate_upload_except e param_dict (py_get param_dict ''callback_url'')
                        (Some user_id) ex of
                   (r, evs') \<Rightarrow> (r, evs @ evs')))"
    by (rule initiate_upload_resolved)
  with assms(5,6) p show ?thesis
    by (cases r) (simp_all add: bind_def cbind_def)
qed

theorem status_url_is_dispatched_to_the_poller_witness:
  "poll_params ''status_url'' = Some (JStr ''https://canvas/progress/5432'')
   \<and> lambda_invoke demo_env LAMBDA_ARN (json_dumps demo_env (JObj poll_params))
       = Inr (lambda_response 202)
   \<and> upload_to_canvas demo_env poll_params
       = (Inr (poll_params(''status_flag'' \<mapsto> JInt STATUS_POLLING,
                           ''status_msg'' \<mapsto> JStr ''https://canvas/progress/5432'')),
          [LambdaInvoke LAMBDA_ARN ''<json>''])
   \<and> snd (upload_to_canvas rejecting_env poll_params) = [LambdaInvoke LAMBDA_ARN ''<json>'']"
proof -
  let ?md = "[''HTTPHeaders'' \<mapsto> JObj Map.empty]"
  let ?resp = "[''StatusCode'' \<mapsto> JInt 202, ''ResponseMetadata'' \<mapsto> JObj ?md]"
  have h1: "poll_params ''status_url'' = Some (JStr ''https://canvas/progress/5432'')"
    by (simp add: poll_params_def)
  have h2: "''https://canvas/progress/5432'' \<noteq> []"
    by simp
  have h3: "lambda_invoke demo_env LAMBDA_ARN (json_dumps demo_env (JObj poll_params))
              = Inr (JObj ?resp)
        \<and> ?resp ''StatusCode'' = Some (JInt 202)
        \<and> (200::int) \<le> 202 \<and> (202::int) < 300
        \<and> ?resp ''ResponseMetadata'' = Some (JObj ?md)
        \<and> ?md ''HTTPHeaders'' = Some (JObj Map.empty)
        \<and> (Map.empty :: dict) ''x-amz-function-error'' = None"
    by (simp add: demo_env_def lambda_response_def)
  have d: "json_dumps demo_env (JObj poll_params) = ''<json>''"
    "json_dumps rejecting_env (JObj poll_params) = ''<json>''"
    by (simp_all add: demo_env_def rejecting_env_def)
  have l: "lambda_invoke demo_env LAMBDA_ARN (json_dumps demo_env (JObj poll_params))
       = Inr (lambda_response 202)"
    by (simp add: demo_env_def)
  note ok = status_url_is_dispatched_to_the_poller
         [where param_dict = poll_params and e = demo_env and response = "?resp"
            and metadata = "?md" and headers = Map.empty and status_code = 202, OF h1 h2]
  note bad = status_url_is_dispatched_to_the_poller
         [where param_dict = poll_params and e = rejecting_env, OF h1 h2, THEN conjunct1]
  from ok [THEN conjunct1] ok [THEN conjunct2, THEN mp, OF h3] d(1)
  have "upload_to_canvas demo_env poll_params
       = (Inr (poll_params(''status_flag'' \<mapsto> JInt STATUS_POLLING,
                           ''status_msg'' \<mapsto> JStr ''https://canvas/progress/5432'')),
          [LambdaInvoke LAMBDA_ARN ''<json>''])"
    by (simp add: prod_eq_iff)
  with h1 l bad d(2) show ?thesis
    by simp
qed

text \<open>
  C1 as stated fails: in the example environment \<open>poll\<close> returns READY for the parameters, and
  \<open>upload_to_canvas\<close> returns POLLING for them.
\<close>

theorem upload_to_canvas_does_not_return_the_result_of_poll:
  "poll_params ''status_url'' = Some (JStr ''https://canvas/progress/5432'')
   \<and> fst (upload_to_canvas demo_env poll_params)
       = Inr (make_callback_dictionary poll_params STATUS_POLLING
                (JStr ''https://canvas/progress/5432''))
   \<and> map_option fst (poll demo_env poll_params)
       = Some (Inr (make_callback_dictionary poll_params STATUS_READY (JStr ''<json>'')))
   \<and> map_option fst (poll demo_env poll_params)
       \<noteq> Some (fst (upload_to_canvas demo_env poll_params))"
proof -
  have h1: "poll_params ''status_url'' = Some (JStr ''https://canvas/progress/5432'')"
    by (simp add: poll_params_def)
  have u: "fst (upload_to_canvas demo_env poll_params)
       = Inr (make_callback_dictionary poll_params STATUS_POLLING
                (JStr ''https://canvas/progress/5432''))"
    by (simp add: upload_to_canvas_def initiate_polling_def py_get_def bind_def lib_def
          example_defs LAMBDA_ARN_def)
  have "poll_loop ''https://canvas/progress/5432'' (time_now demo_env + of_int MAX_WAIT)
          (canvas_get demo_env ''https://canvas/progress/5432'')
        = Some (Inr (progress ''completed'', JStr ''completed''))"
    by (simp add: example_defs poll_loop.simps(2) lib_def)
  moreover have "file_descriptor_message demo_env (progress ''completed'') = Inr ''<json>''"
    by (simp add: file_descriptor_message_def example_defs try_except_def bind_def lib_def)
  ultimately have p: "map_option fst (poll demo_env poll_params)
       = Some (Inr (make_callback_dictionary poll_params STATUS_READY (JStr ''<json>'')))"
    using h1 by (simp add: poll_def poll_try_def validate_string poll_classify_def cbind_def report_eq)
  have "make_callback_dictionary poll_params STATUS_READY (JStr ''<json>'') ''status_flag''
        \<noteq> make_callback_dictionary poll_params STATUS_POLLING
            (JStr ''https://canvas/progress/5432'') ''status_flag''"
    by (simp add: make_callback_dictionary_def STATUS_READY_def STATUS_POLLING_def)
  then have "make_callback_dictionary poll_params STATUS_READY (JStr ''<json>'')
        \<noteq> make_callback_dictionary poll_params STATUS_POLLING
            (JStr ''https://canvas/progress/5432'')"
    by (rule contrapos_nn) (simp only:)
  with h1 u p show ?thesis
    by (simp only: option.inject sum.inject simp_thms)
qed

text \<open>
  C9 at a failing input: parameters with a status URL and a callback URL, and a dispatcher that
  answers with status code 500. The \<open>LambdaCallException\<close> of \<open>initiate_polling\<close> leaves
  \<open>upload_to_canvas\<close>: no mapping is returned and nothing is posted to the callback URL.
\<close>

theorem rejected_dispatch_escapes_upload_to_canvas:
  "poll_params ''callback_url'' = Some (JStr ''https://client/done'')
   \<and> upload_to_canvas rejecting_env poll_params
       = (Inl (LambdaCallException (JStr ''Lambda call returned bad status code: <json> '')),
          [LambdaInvoke LAMBDA_ARN ''<json>''])"
  by (simp add: upload_to_canvas_def initiate_polling_def py_get_def bind_def lib_def
        example_defs rejecting_env_def)

lemma initiated_dictionary:
  "make_callback_dictionary
     (make_callback_dictionary (param_dict(''status_url'' \<mapsto> status_url)) STATUS_POLLING status_url)
     STATUS_INITIATED status_url
   = param_dict(''status_url'' \<mapsto> status_url, ''status_flag'' \<mapsto> JInt STATUS_INITIATED,
                ''status_msg'' \<mapsto> status_url)"
  by (rule ext) (simp add: make_callback_dictionary_def)

text \<open>
  C2, in the form that holds of the code. Let a run of \<open>initiate_upload\<close> validate its
  parameters, resolve the user and extract a progress URL from the initiation response. When
  the invocation of the polling Lambda function is accepted, the run returns the parameters
  with the progress URL under \<open>status_url\<close>, \<open>status_flag\<close> INITIATED and the progress URL as
  \<open>status_msg\<close>. When the invocation is rejected, the run posts to the callback URL and
  returns the parameters with \<open>status_flag\<close> ERROR and the dispatch error as \<open>status_msg\<close>:
  the text about the bad status code for a status code outside 200 to 299, the text about the
  \<open>x-amz-function-error\<close> header when the response carries that header.
\<close>

theorem initiated_when_accepted_error_when_rejected:
  assumes "param_dict ''file_url'' = Some (JStr file_url)"
    and "param_dict ''file_display_name'' = Some (JStr display_name)"
    and "param_dict ''user_email'' = Some (JStr user_email)"
    and "get_canvas_user_id e user_email = Inr user_id"
    and "initiate_file_upload_via_url e user_id UPLOAD_FOLDER_FULL_PATH file_url display_name
           (py_get param_dict ''file_size'') = UploadResponse resp"
    and "initiation_status_url resp = Inr status_url"
    and "lambda_invoke e LAMBDA_ARN (json_dumps e (JObj (param_dict(''status_url'' \<mapsto> status_url))))
         = Inr (JObj response)"
    and "response ''StatusCode'' = Some (JInt status_code)"
    and "response ''ResponseMetadata'' = Some (JObj metadata)"
    and "metadata ''HTTPHeaders'' = Some (JObj headers)"
  shows
    "(200 \<le> status_code \<and> status_code < 300 \<and> headers ''x-amz-function-error'' = None
      \<longrightarrow> initiate_upload e param_dict
          = (Inr (param_dict(''status_url'' \<mapsto> status_url,
                             ''status_flag'' \<mapsto> JInt STATUS_INITIATED,
                             ''status_msg'' \<mapsto> status_url)),
             [LambdaInvoke LAMBDA_ARN
                (json_dumps e (JObj (param_dict(''status_url'' \<mapsto> status_url))))]))
     \<and> (\<not> (200 \<le> status_code \<and> status_code < 300)
      \<longrightarrow> initiate_upload e param_dict
          = (Inr (param_dict(''status_flag'' \<mapsto> JInt STATUS_ERROR,
                             ''status_msg'' \<mapsto>
                               JStr (''Lambda call returned bad status code: ''
                                     @ json_dumps e (JObj response) @ '' ''))),
             LambdaInvoke LAMBDA_ARN
               (json_dumps e (JObj (param_dict(''status_url'' \<mapsto> status_url))))
             # callbacks (py_get param_dict ''callback_url'')
                 (param_dict(''status_flag'' \<mapsto> JInt STATUS_ERROR,
                             ''status_msg'' \<mapsto>
                               JStr (''Lambda call returned bad status code: ''
                                     @ json_dumps e (JObj response) @ '' '')))))
     \<and> (200 \<le> status_code \<and> status_code < 300 \<and> headers ''x-amz-function-error'' \<noteq> None
      \<longrightarrow> initiate_upload e param_dict
          = (Inr (param_dict(''status_flag'' \<mapsto> JInt STATUS_ERROR,
                             ''status_msg'' \<mapsto>
                               JStr (''Lambda call returned x-amz-function-error header: ''
                                     @ json_dumps e (JObj response)))),
             LambdaInvoke LAMBDA_ARN
               (json_dumps e (JObj (param_dict(''status_url'' \<mapsto> status_url))))
             # callbacks (py_get param_dict ''callback_url'')
                 (param_dict(''status_flag'' \<mapsto> JInt STATUS_ERROR,
                             ''status_msg'' \<mapsto>
                               JStr (''Lambda call returned x-amz-function-error header: ''
                                     @ json_dumps e (JObj response))))))"
proof -
  let ?lp = "param_dict(''status_url'' \<mapsto> status_url)"
  from assms(1-6)
  have iu: "initiate_upload e param_dict
         = (case initiate_polling e ?lp of
              (Inr return_dict, evs) \<Rightarrow>
                (Inr (make_callback_dictionary return_dict STATUS_INITIATED status_url), evs)
            | (Inl ex, evs) \<Rightarrow>
                (case initiate_upload_except e param_dict (py_get param_dict ''callback_url'')
                        (Some user_id) ex of
                   (r, evs') \<Rightarrow> (r, evs @ evs')))"
    by (rule initiate_upload_dispatch)
  have su: "?lp ''status_url'' = Some status_url"
    by simp
  show ?thesis
  proof (intro conjI impI)
    assume ok: "200 \<le> status_code \<and> status_code < 300 \<and> headers ''x-amz-function-error'' = None"
    then have lo: "200 \<le> status_code" and hi: "status_code < 300"
      and nh: "headers ''x-amz-function-error'' = None"
      by simp_all
    from assms(7,8) lo hi assms(9,10) nh su have "initiate_polling e ?lp
         = (Inr (make_callback_dictionary ?lp STATUS_POLLING status_url),
            [LambdaInvoke LAMBDA_ARN (json_dumps e (JObj ?lp))])"
      by (rule initiate_polling_accepted)
    then show "initiate_upload e param_dict
          = (Inr (param_dict(''status_url'' \<mapsto> status_url,
                             ''status_flag'' \<mapsto> JInt STATUS_INITIATED,
                             ''status_msg'' \<mapsto> status_url)),
             [LambdaInvoke LAMBDA_ARN (json_dumps e (JObj ?lp))])"
      by (simp add: iu initiated_dictionary)
  next
    assume "\<not> (200 \<le> status_code \<and> status_code < 300)"
    with assms(7,8) have "initiate_polling e ?lp
         = (Inl (LambdaCallException
                   (JStr (''Lambda call returned bad status code: ''
                          @ json_dumps e (JObj response) @ '' ''))),
            [LambdaInvoke LAMBDA_ARN (json_dumps e (JObj ?lp))])"
      by (rule initiate_polling_bad_status)
    then show "initiate_upload e param_dict
          = (Inr (param_dict(''status_flag'' \<mapsto> JInt STATUS_ERROR,
                             ''status_msg'' \<mapsto>
                               JStr (''Lambda call returned bad status code: ''
                                     @ json_dumps e (JObj response) @ '' ''))),
             LambdaInvoke LAMBDA_ARN (json_dumps e (JObj ?lp))
             # callbacks (py_get param_dict ''callback_url'')
                 (param_dict(''status_flag'' \<mapsto> JInt STATUS_ERROR,
                             ''status_msg'' \<mapsto>
                               JStr (''Lambda call returned bad status code: ''
                                     @ json_dumps e (JObj response) @ '' ''))))"
      by (simp add: iu report_eq make_callback_dictionary_def)
  next
    assume a: "200 \<le> status_code \<and> status_code < 300 \<and> headers ''x-amz-function-error'' \<noteq> None"
    then obtain v where hv: "headers ''x-amz-function-error'' = Some v"
      by auto
    from a have lo: "200 \<le> status_code" and hi: "status_code < 300"
      by simp_all
    from assms(7,8) lo hi assms(9,10) hv have "initiate_polling e ?lp
         = (Inl (LambdaCallException
                   (JStr (''Lambda call returned x-amz-function-error header: ''
                          @ json_dumps e (JObj response)))),
            [LambdaInvoke LAMBDA_ARN (json_dumps e (JObj ?lp))])"
      by (rule initiate_polling_function_error)
    then show "initiate_upload e param_dict
          = (Inr (param_dict(''status_flag'' \<mapsto> JInt STATUS_ERROR,
                             ''status_msg'' \<mapsto>
                               JStr (''Lambda call returned x-amz-function-error header: ''
                                     @ json_dumps e (JObj response)))),
             LambdaInvoke LAMBDA_ARN (json_dumps e (JObj ?lp))
             # callbacks (py_get param_dict ''callback_url'')
                 (param_dict(''status_flag'' \<mapsto> JInt STATUS_ERROR,
                             ''status_msg'' \<mapsto>
                               JStr (''Lambda call returned x-amz-function-error header: ''
                                     @ json_dumps e (JObj response)))))"
      by (simp add: iu report_eq make_callback_dictionary_def)
  qed
qed

lemma demo_user_id: "get_canvas_user_id demo_env ''a@b.com'' = Inr (JInt 654)"
  by (simp add: get_canvas_user_id_def find_exact_match_for_login_id_def bind_def lib_def
        demo_env_def)

lemma demo_status_url:
  "initiation_status_url (JObj [''progress'' \<mapsto> JObj [''url'' \<mapsto> JStr ''https://canvas/progress/5432'']])
   = Inr (JStr ''https://canvas/progress/5432'')"
  by (simp add: initiation_status_url_def bind_def)

theorem initiated_when_accepted_error_when_rejected_witness:
  "get_canvas_user_id demo_env ''a@b.com'' = Inr (JInt 654)
   \<and> initiate_upload demo_env upload_params
       = (Inr (upload_params(''status_url'' \<mapsto> JStr ''https://canvas/progress/5432'',
                             ''status_flag'' \<mapsto> JInt STATUS_INITIATED,
                             ''status_msg'' \<mapsto> JStr ''https://canvas/progress/5432'')),
          [LambdaInvoke LAMBDA_ARN ''<json>''])
   \<and> initiate_upload rejecting_env upload_params
       = (Inr (upload_params(''status_flag'' \<mapsto> JInt STATUS_ERROR,
                             ''status_msg'' \<mapsto>
                               JStr ''Lambda call returned bad status code: <json> '')),
          [LambdaInvoke LAMBDA_ARN ''<json>'',
           CallbackPost ''https://client/done''
             (upload_params(''status_flag'' \<mapsto> JInt STATUS_ERROR,
                            ''status_msg'' \<mapsto>
                              JStr ''Lambda call returned bad status code: <json> ''))])
   \<and> initiate_upload function_error_env upload_params
       = (Inr (upload_params(''status_flag'' \<mapsto> JInt STATUS_ERROR,
                             ''status_msg'' \<mapsto>
                               JStr ''Lambda call returned x-amz-function-error header: <json>'')),
          [LambdaInvoke LAMBDA_ARN ''<json>'',
           CallbackPost ''https://client/done''
             (upload_params(''status_flag'' \<mapsto> JInt STATUS_ERROR,
                            ''status_msg'' \<mapsto>
                              JStr ''Lambda call returned x-amz-function-error header: <json>''))])"
proof -
  let ?url = "JStr ''https://canvas/progress/5432''"
  let ?resp = "JObj [''progress'' \<mapsto> JObj [''url'' \<mapsto> ?url]]"
  let ?md = "[''HTTPHeaders'' \<mapsto> JObj Map.empty]"
  let ?hd = "[''x-amz-function-error'' \<mapsto> JStr ''Unhandled'']"
  let ?mde = "[''HTTPHeaders'' \<mapsto> JObj ?hd]"
  let ?ok = "[''StatusCode'' \<mapsto> JInt 202, ''ResponseMetadata'' \<mapsto> JObj ?md]"
  let ?bad = "[''StatusCode'' \<mapsto> JInt 500, ''ResponseMetadata'' \<mapsto> JObj ?md]"
  let ?fe = "[''StatusCode'' \<mapsto> JInt 202, ''ResponseMetadata'' \<mapsto> JObj ?mde]"
  have p1: "upload_params ''file_url'' = Some (JStr ''https://host/clip.mp4'')"
    and p2: "upload_params ''file_display_name'' = Some (JStr ''clip.mp4'')"
    and p3: "upload_params ''user_email'' = Some (JStr ''a@b.com'')"
    by (simp_all add: upload_params_def)
  have g2: "get_canvas_user_id rejecting_env ''a@b.com'' = Inr (JInt 654)"
    and g3: "get_canvas_user_id function_error_env ''a@b.com'' = Inr (JInt 654)"
    using demo_user_id
    by (simp_all add: get_canvas_user_id_def rejecting_env_def function_error_env_def)
  have i1: "initiate_file_upload_via_url demo_env (JInt 654) UPLOAD_FOLDER_FULL_PATH
              ''https://host/clip.mp4'' ''clip.mp4'' (py_get upload_params ''file_size'')
            = UploadResponse ?resp"
    by (simp add: demo_env_def)
  have i2: "initiate_file_upload_via_url rejecting_env (JInt 654) UPLOAD_FOLDER_FULL_PATH
              ''https://host/clip.mp4'' ''clip.mp4'' (py_get upload_params ''file_size'')
            = UploadResponse ?resp"
    by (simp add: demo_env_def rejecting_env_def)
  have i3: "initiate_file_upload_via_url function_error_env (JInt 654) UPLOAD_FOLDER_FULL_PATH
              ''https://host/clip.mp4'' ''clip.mp4'' (py_get upload_params ''file_size'')
            = UploadResponse ?resp"
    by (simp add: demo_env_def function_error_env_def)
  have l1: "lambda_invoke demo_env LAMBDA_ARN
              (json_dumps demo_env (JObj (upload_params(''status_url'' \<mapsto> ?url))))
            = Inr (JObj ?ok)"
    by (simp add: demo_env_def lambda_response_def)
  have l2: "lambda_invoke rejecting_env LAMBDA_ARN
              (json_dumps rejecting_env (JObj (upload_params(''status_url'' \<mapsto> ?url))))
            = Inr (JObj ?bad)"
    by (simp add: demo_env_def rejecting_env_def lambda_response_def)
  have l3: "lambda_invoke function_error_env LAMBDA_ARN
              (json_dumps function_error_env (JObj (upload_params(''status_url'' \<mapsto> ?url))))
            = Inr (JObj ?fe)"
    by (simp add: demo_env_def function_error_env_def)
  have s1: "?ok ''StatusCode'' = Some (JInt 202)" and m1: "?ok ''ResponseMetadata'' = Some (JObj ?md)"
    and s2: "?bad ''StatusCode'' = Some (JInt 500)" and m2: "?bad ''ResponseMetadata'' = Some (JObj ?md)"
    and s3: "?fe ''StatusCode'' = Some (JInt 202)" and m3: "?fe ''ResponseMetadata'' = Some (JObj ?mde)"
    and hh: "?md ''HTTPHeaders'' = Some (JObj Map.empty)"
    and he: "?mde ''HTTPHeaders'' = Some (JObj ?hd)"
    by simp_all
  have c1: "(200::int) \<le> 202 \<and> (202::int) < 300 \<and> (Map.empty :: dict) ''x-amz-function-error'' = None"
    by simp
  have c2: "\<not> ((200::int) \<le> 500 \<and> (500::int) < 300)"
    by simp
  have c3: "(200::int) \<le> 202 \<and> (202::int) < 300 \<and> ?hd ''x-amz-function-error'' \<noteq> None"
    by simp
  have d: "json_dumps demo_env = (\<lambda>v. ''<json>'')"
    "json_dumps rejecting_env = (\<lambda>v. ''<json>'')"
    "json_dumps function_error_env = (\<lambda>v. ''<json>'')"
    by (simp_all add: demo_env_def rejecting_env_def function_error_env_def)
  have cb: "py_get upload_params ''callback_url'' = JStr ''https://client/done''"
    by (simp add: py_get_def upload_params_def)
  from initiated_when_accepted_error_when_rejected
         [where param_dict = upload_params and e = demo_env and response = "?ok"
            and metadata = "?md" and headers = Map.empty,
          OF p1 p2 p3 demo_user_id i1 demo_status_url l1 s1 m1 hh, THEN conjunct1, THEN mp, OF c1]
       initiated_when_accepted_error_when_rejected
         [where param_dict = upload_params and e = rejecting_env and response = "?bad"
            and metadata = "?md" and headers = Map.empty,
          OF p1 p2 p3 g2 i2 demo_status_url l2 s2 m2 hh,
          THEN conjunct2, THEN conjunct1, THEN mp, OF c2]
       initiated_when_accepted_error_when_rejected
         [where param_dict = upload_params and e = function_error_env and response = "?fe"
            and metadata = "?mde" and headers = "?hd",
          OF p1 p2 p3 g3 i3 demo_status_url l3 s3 m3 he,
          THEN conjunct2, THEN conjunct2, THEN mp, OF c3]
       demo_user_id d cb
  show ?thesis
    by simp
qed

text \<open>
  C2 as stated fails: with valid parameters, a resolved user and a progress URL in the
  initiation response, a dispatcher that answers with status code 500 makes
  \<open>initiate_upload\<close> return ERROR, not INITIATED.
\<close>

theorem rejected_dispatch_gives_error_not_initiated:
  "validate upload_params ''file_url'' = Inr ''https://host/clip.mp4''
   \<and> validate upload_params ''file_display_name'' = Inr ''clip.mp4''
   \<and> validate upload_params ''user_email'' = Inr ''a@b.com''
   \<and> get_canvas_user_id rejecting_env ''a@b.com'' = Inr (JInt 654)
   \<and> bind (upload_reply_result
             (initiate_file_upload_via_url rejecting_env (JInt 654) UPLOAD_FOLDER_FULL_PATH
                ''https://host/clip.mp4'' ''clip.mp4'' (py_get upload_params ''file_size'')))
        initiation_status_url
       = Inr (JStr ''https://canvas/progress/5432'')
   \<and> lambda_invoke rejecting_env LAMBDA_ARN ''<json>'' = Inr (lambda_response 500)
   \<and> initiate_upload rejecting_env upload_params
       = (Inr (make_callback_dictionary upload_params STATUS_ERROR
                 (JStr ''Lambda call returned bad status code: <json> '')),
          [LambdaInvoke LAMBDA_ARN ''<json>'',
           CallbackPost ''https://client/done''
             (make_callback_dictionary upload_params STATUS_ERROR
                (JStr ''Lambda call returned bad status code: <json> ''))])
   \<and> make_callback_dictionary upload_params STATUS_ERROR
         (JStr ''Lambda call returned bad status code: <json> '') ''status_flag''
       = Some (JInt 1)
   \<and> JInt 1 \<noteq> JInt STATUS_INITIATED"
proof -
  have v: "validate upload_params ''file_url'' = Inr ''https://host/clip.mp4''
   \<and> validate upload_params ''file_display_name'' = Inr ''clip.mp4''
   \<and> validate upload_params ''user_email'' = Inr ''a@b.com''"
    by (simp add: validate_def upload_params_def)
  have g: "get_canvas_user_id rejecting_env ''a@b.com'' = Inr (JInt 654)"
    using demo_user_id by (simp add: get_canvas_user_id_def rejecting_env_def)
  have r: "bind (upload_reply_result
             (initiate_file_upload_via_url rejecting_env (JInt 654) UPLOAD_FOLDER_FULL_PATH
                ''https://host/clip.mp4'' ''clip.mp4'' (py_get upload_params ''file_size'')))
        initiation_status_url
       = Inr (JStr ''https://canvas/progress/5432'')"
    using demo_status_url by (simp add: rejecting_env_def demo_env_def bind_def)
  have l: "lambda_invoke rejecting_env LAMBDA_ARN ''<json>'' = Inr (lambda_response 500)"
    by (simp add: rejecting_env_def)
  have p: "initiate_polling rejecting_env
             (upload_params(''status_url'' \<mapsto> JStr ''https://canvas/progress/5432''))
           = (Inl (LambdaCallException (JStr ''Lambda call returned bad status code: <json> '')),
              [LambdaInvoke LAMBDA_ARN ''<json>''])"
    by (simp add: initiate_polling_def bind_def lib_def rejecting_env_def demo_env_def
          lambda_response_def)
  have cb: "py_get upload_params ''callback_url'' = JStr ''https://client/done''"
    by (simp add: py_get_def upload_params_def)
  have i: "initiate_upload rejecting_env upload_params
       = (Inr (make_callback_dictionary upload_params STATUS_ERROR
                 (JStr ''Lambda call returned bad status code: <json> '')),
          [LambdaInvoke LAMBDA_ARN ''<json>'',
           CallbackPost ''https://client/done''
             (make_callback_dictionary upload_params STATUS_ERROR
                (JStr ''Lambda call returned bad status code: <json> ''))])"
    using v g r p cb
    by (simp add: initiate_upload_def initiate_upload_try_def bind_def cbind_def report_eq)
  have f: "make_callback_dictionary upload_params STATUS_ERROR
         (JStr ''Lambda call returned bad status code: <json> '') ''status_flag''
       = Some (JInt 1) \<and> JInt 1 \<noteq> JInt STATUS_INITIATED"
    by (simp add: make_callback_dictionary_def STATUS_ERROR_def STATUS_INITIATED_def)
  from v g r l i f show ?thesis
    by (simp only: simp_thms)
qed

section \<open>The quota message\<close>

lemma group3_filter:
  "filter (\<lambda>c. c \<noteq> CHR '','') (group3 ds) = filter (\<lambda>c. c \<noteq> CHR '','') ds"
  by (induction ds rule: group3.induct) simp_all

lemma digit_char_no_comma: "d < 10 \<Longrightarrow> digit_char d \<noteq> CHR '',''"
proof -
  assume "d < 10"
  then have "digit_char d \<in> set ''0123456789''"
    unfolding digit_char_def by (intro nth_mem) simp
  then show ?thesis by auto
qed

lemma decimal_no_comma: "filter (\<lambda>c. c \<noteq> CHR '','') (decimal n) = decimal n"
proof (induction n rule: decimal.induct)
  case (1 n)
  show ?case
  proof (cases "n < 10")
    case True
    then show ?thesis
      by (simp add: decimal.simps [of n] digit_char_no_comma)
  next
    case False
    then have "n mod 10 < 10" by simp
    with False "1.IH" show ?thesis
      by (simp add: decimal.simps [of n] digit_char_no_comma)
  qed
qed

lemma comma_d_digits: "filter (\<lambda>c. c \<noteq> CHR '','') (comma_d i) = str_int i"
  by (simp add: comma_d_def str_int_def group3_filter decimal_no_comma
        flip: rev_filter)

lemma initiation_quota:
  assumes "resp ''message'' = Some (JStr ''file size exceeds quota'')
           \<or> (\<exists>s. resp ''error'' = Some (JStr s) \<and> str_contains ''file size exceeds quota limits'' s)"
  shows "\<exists>m. initiation_status_url (JObj resp) = Inl (FileSizeExceedsQuotaException m)"
proof (cases "resp ''message'' = Some (JStr ''file size exceeds quota'')")
  case True
  then show ?thesis
    by (simp add: initiation_status_url_def bind_def)
next
  case False
  with assms obtain s where s: "resp ''error'' = Some (JStr s)"
    and c: "str_contains ''file size exceeds quota limits'' s"
    by blast
  show ?thesis
  proof (cases "resp ''message''")
    case None
    with s c show ?thesis
      by (simp add: initiation_status_url_def bind_def)
  next
    case (Some v)
    with False have "v \<noteq> JStr ''file size exceeds quota''"
      by simp
    with Some s c show ?thesis
      by (simp add: initiation_status_url_def bind_def)
  qed
qed

lemma make_quota_exceeded_message_fetched:
  assumes "pull_quota_info e user_id = Inr (JObj quota_info)"
    and "quota_info ''quota'' = Some (JInt quota)"
    and "quota_info ''quota_used'' = Some (JInt quota_used)"
  shows "make_quota_exceeded_message e user_id
         = Inr (''File size exceeds quota. Quota: '' @ comma_d quota
                @ '' bytes. Quota used: '' @ comma_d quota_used @ '' bytes.'')"
  using assms by (simp add: make_quota_exceeded_message_def bind_def lib_def)

text \<open>
  C5, in the form that holds of the code. Let a run of \<open>initiate_upload\<close> validate its
  parameters and resolve the user, and let the initiation response be an object whose
  \<open>message\<close> is \<open>file size exceeds quota\<close> or whose \<open>error\<close> is a string containing
  \<open>file size exceeds quota limits\<close>. When the quota information fetched for the user is an
  object with the integers \<open>quota\<close> and \<open>quota_used\<close>, the run posts to the callback URL and
  returns the parameters with \<open>status_flag\<close> QUOTA_EXCEEDED and a \<open>status_msg\<close> that contains
  both numbers, written in decimal with a comma between groups of three digits (the digits
  are those of the number).
\<close>

theorem quota_exceeded_reports_the_quota:
  assumes "param_dict ''file_url'' = Some (JStr file_url)"
    and "param_dict ''file_display_name'' = Some (JStr display_name)"
    and "param_dict ''user_email'' = Some (JStr user_email)"
    and "get_canvas_user_id e user_email = Inr user_id"
    and "initiate_file_upload_via_url e user_id UPLOAD_FOLDER_FULL_PATH file_url display_name
           (py_get param_dict ''file_size'') = UploadResponse (JObj resp)"
    and "resp ''message'' = Some (JStr ''file size exceeds quota'')
         \<or> (\<exists>s. resp ''error'' = Some (JStr s) \<and> str_contains ''file size exceeds quota limits'' s)"
    and "pull_quota_info e user_id = Inr (JObj quota_info)"
    and "quota_info ''quota'' = Some (JInt quota)"
    and "quota_info ''quota_used'' = Some (JInt quota_used)"
  shows "initiate_upload e param_dict
         = (Inr (param_dict(''status_flag'' \<mapsto> JInt STATUS_QUOTA_EXCEEDED, ''status_msg'' \<mapsto> JStr (''File size exceeds quota. Quota: '' @ comma_d quota @ '' bytes. Quota used: '' @ comma_d quota_used @ '' bytes.''))),
            callbacks (py_get param_dict ''callback_url'')
              (param_dict(''status_flag'' \<mapsto> JInt STATUS_QUOTA_EXCEEDED, ''status_msg'' \<mapsto> JStr (''File size exceeds quota. Quota: '' @ comma_d quota @ '' bytes. Quota used: '' @ comma_d quota_used @ '' bytes.''))))
         \<and> filter (\<lambda>c. c \<noteq> CHR '','') (comma_d quota) = str_int quota
         \<and> filter (\<lambda>c. c \<noteq> CHR '','') (comma_d quota_used) = str_int quota_used"
proof -
  have
    "initiate_upload e param_dict
         = (Inr (make_callback_dictionary param_dict STATUS_QUOTA_EXCEEDED
                   (JStr (''File size exceeds quota. Quota: '' @ comma_d quota
                          @ '' bytes. Quota used: '' @ comma_d quota_used @ '' bytes.''))),
            callbacks (py_get param_dict ''callback_url'')
              (make_callback_dictionary param_dict STATUS_QUOTA_EXCEEDED
                 (JStr (''File size exceeds quota. Quota: '' @ comma_d quota
                        @ '' bytes. Quota used: '' @ comma_d quota_used @ '' bytes.''))))
         \<and> filter (\<lambda>c. c \<noteq> CHR '','') (comma_d quota) = str_int quota
         \<and> filter (\<lambda>c. c \<noteq> CHR '','') (comma_d quota_used) = str_int quota_used"
  proof -
    from assms(6) obtain m
      where q: "initiation_status_url (JObj resp) = Inl (FileSizeExceedsQuotaException m)"
      using initiation_quota by blast
    from assms(7-9)
    have msg: "make_quota_exceeded_message e user_id
           = Inr (''File size exceeds quota. Quota: '' @ comma_d quota
                  @ '' bytes. Quota used: '' @ comma_d quota_used @ '' bytes.'')"
      by (rule make_quota_exceeded_message_fetched)
    from assms(1-4) have "initiate_upload e param_dict
           = (case cbind
                     (bind (upload_reply_result
                              (initiate_file_upload_via_url e user_id UPLOAD_FOLDER_FULL_PATH
                                 file_url display_name (py_get param_dict ''file_size'')))
                        initiation_status_url, [])
                     (\<lambda>status_url.
                        cbind (initiate_polling e (param_dict(''status_url'' \<mapsto> status_url)))
                          (\<lambda>return_dict.
                             (Inr (make_callback_dictionary return_dict STATUS_INITIATED status_url),
                              []))) of
                (Inr return_dict, evs) \<Rightarrow> (Inr return_dict, evs)
              | (Inl ex, evs) \<Rightarrow>
                  (case initiate_upload_except e param_dict (py_get param_dict ''callback_url'')
                          (Some user_id) ex of
                     (r, evs') \<Rightarrow> (r, evs @ evs')))"
      by (rule initiate_upload_resolved)
    then have "initiate_upload e param_dict
           = (Inr (make_callback_dictionary param_dict STATUS_QUOTA_EXCEEDED
                     (JStr (''File size exceeds quota. Quota: '' @ comma_d quota
                            @ '' bytes. Quota used: '' @ comma_d quota_used @ '' bytes.''))),
              callbacks (py_get param_dict ''callback_url'')
                (make_callback_dictionary param_dict STATUS_QUOTA_EXCEEDED
                   (JStr (''File size exceeds quota. Quota: '' @ comma_d quota
                          @ '' bytes. Quota used: '' @ comma_d quota_used @ '' bytes.''))))"
      by (simp add: assms(5) q msg bind_def cbind_def report_eq)
    then show ?thesis
      by (simp add: comma_d_digits)
  qed
  then show ?thesis
    by (simp only: make_callback_dictionary_def)
qed

theorem quota_exceeded_reports_the_quota_witness:
  "pull_quota_info demo_env (JInt 654)
     = Inr (JObj [''quota'' \<mapsto> JInt 52428800, ''quota_used'' \<mapsto> JInt 52427776])
   \<and> initiate_upload quota_message_env upload_params
       = (Inr (upload_params(''status_flag'' \<mapsto> JInt STATUS_QUOTA_EXCEEDED, ''status_msg'' \<mapsto> JStr ''File size exceeds quota. Quota: 52,428,800 bytes. Quota used: 52,427,776 bytes.'')),
          [CallbackPost ''https://client/done''
             (upload_params(''status_flag'' \<mapsto> JInt STATUS_QUOTA_EXCEEDED, ''status_msg'' \<mapsto> JStr ''File size exceeds quota. Quota: 52,428,800 bytes. Quota used: 52,427,776 bytes.''))])
   \<and> initiate_upload quota_error_env upload_params
       = (Inr (upload_params(''status_flag'' \<mapsto> JInt STATUS_QUOTA_EXCEEDED, ''status_msg'' \<mapsto> JStr ''File size exceeds quota. Quota: 52,428,800 bytes. Quota used: 52,427,776 bytes.'')),
          [CallbackPost ''https://client/done''
             (upload_params(''status_flag'' \<mapsto> JInt STATUS_QUOTA_EXCEEDED, ''status_msg'' \<mapsto> JStr ''File size exceeds quota. Quota: 52,428,800 bytes. Quota used: 52,427,776 bytes.''))])"
proof -
  let ?m = "[''message'' \<mapsto> JStr ''file size exceeds quota'']"
  let ?er = "[''error'' \<mapsto> JStr ''The file size exceeds quota limits: 2048 bytes'']"
  let ?qi = "[''quota'' \<mapsto> JInt 52428800, ''quota_used'' \<mapsto> JInt 52427776]"
  have p1: "upload_params ''file_url'' = Some (JStr ''https://host/clip.mp4'')"
    and p2: "upload_params ''file_display_name'' = Some (JStr ''clip.mp4'')"
    and p3: "upload_params ''user_email'' = Some (JStr ''a@b.com'')"
    by (simp_all add: upload_params_def)
  have g1: "get_canvas_user_id quota_message_env ''a@b.com'' = Inr (JInt 654)"
    and g2: "get_canvas_user_id quota_error_env ''a@b.com'' = Inr (JInt 654)"
    using demo_user_id
    by (simp_all add: get_canvas_user_id_def quota_message_env_def quota_error_env_def)
  have i1: "initiate_file_upload_via_url quota_message_env (JInt 654) UPLOAD_FOLDER_FULL_PATH
              ''https://host/clip.mp4'' ''clip.mp4'' (py_get upload_params ''file_size'')
            = UploadResponse (JObj ?m)"
    by (simp add: quota_message_env_def)
  have i2: "initiate_file_upload_via_url quota_error_env (JInt 654) UPLOAD_FOLDER_FULL_PATH
              ''https://host/clip.mp4'' ''clip.mp4'' (py_get upload_params ''file_size'')
            = UploadResponse (JObj ?er)"
    by (simp add: quota_error_env_def)
  have d1: "?m ''message'' = Some (JStr ''file size exceeds quota'')
         \<or> (\<exists>s. ?m ''error'' = Some (JStr s) \<and> str_contains ''file size exceeds quota limits'' s)"
    by simp
  have "str_contains ''file size exceeds quota limits'' ''The file size exceeds quota limits: 2048 bytes''"
    by simp
  then have d2: "?er ''message'' = Some (JStr ''file size exceeds quota'')
         \<or> (\<exists>s. ?er ''error'' = Some (JStr s) \<and> str_contains ''file size exceeds quota limits'' s)"
    by simp
  have q0: "pull_quota_info demo_env (JInt 654) = Inr (JObj ?qi)"
    by (simp add: demo_env_def)
  have q1: "pull_quota_info quota_message_env (JInt 654) = Inr (JObj ?qi)"
    and q2: "pull_quota_info quota_error_env (JInt 654) = Inr (JObj ?qi)"
    by (simp_all add: quota_message_env_def quota_error_env_def demo_env_def)
  have k1: "?qi ''quota'' = Some (JInt 52428800)" and k2: "?qi ''quota_used'' = Some (JInt 52427776)"
    by simp_all
  have c: "comma_d 52428800 = ''52,428,800''" "comma_d 52427776 = ''52,427,776''"
    by (simp_all add: comma_d_def digit_char_def decimal.simps)
  have cb: "py_get upload_params ''callback_url'' = JStr ''https://client/done''"
    by (simp add: py_get_def upload_params_def)
  from quota_exceeded_reports_the_quota
         [where param_dict = upload_params and e = quota_message_env and resp = "?m"
            and quota_info = "?qi",
          OF p1 p2 p3 g1 i1 d1 q1 k1 k2, THEN conjunct1]
       quota_exceeded_reports_the_quota
         [where param_dict = upload_params and e = quota_error_env and resp = "?er"
            and quota_info = "?qi",
          OF p1 p2 p3 g2 i2 d2 q2 k1 k2, THEN conjunct1]
       q0 c cb
  show ?thesis
    by simp
qed

text \<open>
  C5 as stated fails: the response reports the quota, the fetch of the quota information
  raises inside the handler of the quota exception, and the exception leaves
  \<open>initiate_upload\<close>: no mapping is returned and nothing is posted to the callback URL.
\<close>

theorem quota_fetch_failure_leaves_no_result:
  "validate upload_params ''file_url'' = Inr ''https://host/clip.mp4''
   \<and> validate upload_params ''file_display_name'' = Inr ''clip.mp4''
   \<and> validate upload_params ''user_email'' = Inr ''a@b.com''
   \<and> get_canvas_user_id quota_unreachable_env ''a@b.com'' = Inr (JInt 654)
   \<and> initiate_file_upload_via_url quota_unreachable_env (JInt 654) UPLOAD_FOLDER_FULL_PATH
         ''https://host/clip.mp4'' ''clip.mp4'' (py_get upload_params ''file_size'')
       = UploadResponse (JObj [''message'' \<mapsto> JStr ''file size exceeds quota''])
   \<and> pull_quota_info quota_unreachable_env (JInt 654) = Inl (PyErr ''ConnectionError'' ''reset'')
   \<and> initiate_upload quota_unreachable_env upload_params
       = (Inl (PyError (PyErr ''ConnectionError'' ''reset'')), [])"
proof -
  have v: "validate upload_params ''file_url'' = Inr ''https://host/clip.mp4''
   \<and> validate upload_params ''file_display_name'' = Inr ''clip.mp4''
   \<and> validate upload_params ''user_email'' = Inr ''a@b.com''"
    by (simp add: validate_def upload_params_def)
  have g: "get_canvas_user_id quota_unreachable_env ''a@b.com'' = Inr (JInt 654)"
    using demo_user_id
    by (simp add: get_canvas_user_id_def quota_unreachable_env_def quota_message_env_def)
  have r: "initiate_file_upload_via_url quota_unreachable_env (JInt 654) UPLOAD_FOLDER_FULL_PATH
         ''https://host/clip.mp4'' ''clip.mp4'' (py_get upload_params ''file_size'')
       = UploadResponse (JObj [''message'' \<mapsto> JStr ''file size exceeds quota''])"
    by (simp add: quota_unreachable_env_def quota_message_env_def)
  have s: "initiation_status_url (JObj [''message'' \<mapsto> JStr ''file size exceeds quota''])
           = Inl (FileSizeExceedsQuotaException (JStr ''file size exceeds quota''))"
    by (simp add: initiation_status_url_def bind_def)
  have q: "pull_quota_info quota_unreachable_env (JInt 654) = Inl (PyErr ''ConnectionError'' ''reset'')"
    by (simp add: quota_unreachable_env_def)
  then have m: "make_quota_exceeded_message quota_unreachable_env (JInt 654)
                = Inl (PyError (PyErr ''ConnectionError'' ''reset''))"
    by (simp add: make_quota_exceeded_message_def bind_def lib_def)
  have i: "initiate_upload quota_unreachable_env upload_params
       = (Inl (PyError (PyErr ''ConnectionError'' ''reset'')), [])"
    using v g r s m
    by (simp add: initiate_upload_def initiate_upload_try_def bind_def cbind_def)
  from v g r q i show ?thesis
    by (simp only: simp_thms)
qed

section \<open>Resolution of the user\<close>

lemma login_table_found:
  "login_table users table = Inr return_dict \<Longrightarrow> return_dict (JStr target) = Some uid \<Longrightarrow>
   table (JStr target) = Some uid
   \<or> (\<exists>user. JObj user \<in> set users \<and> user ''login_id'' = Some (JStr target)
              \<and> user ''id'' = Some uid)"
proof (induction users arbitrary: table)
  case Nil
  then show ?case by simp
next
  case (Cons u users)
  from Cons.prems(1) obtain user where u: "u = JObj user"
    by (cases u) simp_all
  from Cons.prems(1) u obtain v where v: "user ''id'' = Some v"
    by (cases "user ''id''") simp_all
  from Cons.prems(1) u v obtain k where k: "user ''login_id'' = Some k"
    by (cases "user ''login_id''") simp_all
  from Cons.prems(1) u v k have rest: "login_table users (table(k \<mapsto> v)) = Inr return_dict"
    by (simp split: if_splits)
  from Cons.IH [OF rest Cons.prems(2)]
  show ?case
  proof
    assume a: "(table(k \<mapsto> v)) (JStr target) = Some uid"
    show ?thesis
    proof (cases "k = JStr target")
      case True
      with a v k u show ?thesis by auto
    next
      case False
      with a show ?thesis by simp
    qed
  next
    assume "\<exists>user. JObj user \<in> set users \<and> user ''login_id'' = Some (JStr target)
              \<and> user ''id'' = Some uid"
    then show ?thesis by auto
  qed
qed

lemma login_table_no_match:
  "list_all user_record users \<Longrightarrow>
   list_all (\<lambda>user. login_of user \<noteq> Some (JStr target)) users \<Longrightarrow>
   \<exists>return_dict. login_table users table = Inr return_dict
                 \<and> return_dict (JStr target) = table (JStr target)"
proof (induction users arbitrary: table)
  case Nil
  then show ?case by simp
next
  case (Cons u users)
  from Cons.prems(1) obtain user v k where u: "u = JObj user"
    and v: "user ''id'' = Some v" and k: "user ''login_id'' = Some k" and h: "hashable k"
    by (cases u rule: user_record.cases) (auto split: option.splits)
  from Cons.prems(2) u k have ne: "k \<noteq> JStr target"
    by simp
  from Cons.prems have "list_all user_record users"
    and "list_all (\<lambda>user. login_of user \<noteq> Some (JStr target)) users"
    by simp_all
  from Cons.IH [OF this, of "table(k \<mapsto> v)"]
  obtain return_dict where rd: "login_table users (table(k \<mapsto> v)) = Inr return_dict"
    and "return_dict (JStr target) = (table(k \<mapsto> v)) (JStr target)"
    by blast
  with ne have "return_dict (JStr target) = table (JStr target)"
    by simp
  with rd u v k h show ?case
    by simp
qed

lemma user_not_found:
  assumes "search_users_by_email e user_email = Inr search_results"
    and "list_all user_record search_results"
    and "list_all (\<lambda>user. login_of user \<noteq> Some (JStr user_email)) search_results"
  shows "get_canvas_user_id e user_email
         = Inl (UserNotFoundException (JStr (''User '' @ user_email @ '' not found.'')))"
proof -
  from login_table_no_match [OF assms(2,3), of Map.empty]
  obtain return_dict where "login_table search_results Map.empty = Inr return_dict"
    and "return_dict (JStr user_email) = None"
    by auto
  with assms(1) show ?thesis
    by (simp add: get_canvas_user_id_def find_exact_match_for_login_id_def bind_def lib_def)
qed

lemma user_found_exactly:
  assumes "get_canvas_user_id e user_email = Inr user_id"
  shows "\<exists>search_results user.
           search_users_by_email e user_email = Inr search_results
           \<and> JObj user \<in> set search_results
           \<and> user ''login_id'' = Some (JStr user_email) \<and> user ''id'' = Some user_id"
proof -
  from assms obtain search_results where s: "search_users_by_email e user_email = Inr search_results"
    by (cases "search_users_by_email e user_email")
       (simp_all add: get_canvas_user_id_def bind_def lib_def)
  from assms s obtain return_dict where t: "login_table search_results Map.empty = Inr return_dict"
    by (cases "login_table search_results Map.empty")
       (simp_all add: get_canvas_user_id_def find_exact_match_for_login_id_def bind_def lib_def)
  from assms s t have "return_dict (JStr user_email) = Some user_id"
    by (cases "return_dict (JStr user_email)")
       (simp_all add: get_canvas_user_id_def find_exact_match_for_login_id_def bind_def lib_def
          split: if_splits)
  from login_table_found [OF t this] s show ?thesis
    by simp
qed

lemma initiate_upload_unresolved:
  assumes "param_dict ''file_url'' = Some (JStr file_url)"
    and "param_dict ''file_display_name'' = Some (JStr display_name)"
    and "param_dict ''user_email'' = Some (JStr user_email)"
    and "get_canvas_user_id e user_email = Inl ex"
  shows "initiate_upload e param_dict
         = initiate_upload_except e param_dict (py_get param_dict ''callback_url'') None ex"
  using assms
  by (simp add: initiate_upload_def initiate_upload_try_def validate_string bind_def)

text \<open>
  C6. Let the parameters of \<open>initiate_upload\<close> be valid and let the user search return user
  records none of which has a \<open>login_id\<close> equal to \<open>user_email\<close>. Then the run posts to the
  callback URL and returns the parameters with \<open>status_flag\<close> ERROR and the message that the
  user was not found, whatever other logins the records carry. And whenever
  \<open>get_canvas_user_id\<close> returns an account id, the search results hold a record whose
  \<open>login_id\<close> is exactly the email and whose \<open>id\<close> is that account id.
\<close>

theorem only_an_exact_login_resolves_the_user:
  "(param_dict ''file_url'' = Some (JStr file_url)
      \<and> param_dict ''file_display_name'' = Some (JStr display_name)
      \<and> param_dict ''user_email'' = Some (JStr user_email)
      \<and> search_users_by_email e user_email = Inr search_results
      \<and> list_all user_record search_results
      \<and> list_all (\<lambda>user. login_of user \<noteq> Some (JStr user_email)) search_results
    \<longrightarrow> initiate_upload e param_dict
        = (Inr (param_dict(''status_flag'' \<mapsto> JInt STATUS_ERROR, ''status_msg'' \<mapsto> JStr (''User '' @ user_email @ '' not found.''))),
           callbacks (py_get param_dict ''callback_url'')
             (param_dict(''status_flag'' \<mapsto> JInt STATUS_ERROR, ''status_msg'' \<mapsto> JStr (''User '' @ user_email @ '' not found.'')))))
   \<and> (get_canvas_user_id e login = Inr user_id
    \<longrightarrow> (\<exists>results user.
           search_users_by_email e login = Inr results \<and> JObj user \<in> set results
           \<and> user ''login_id'' = Some (JStr login) \<and> user ''id'' = Some user_id))"
proof -
  have
    "(param_dict ''file_url'' = Some (JStr file_url)
      \<and> param_dict ''file_display_name'' = Some (JStr display_name)
      \<and> param_dict ''user_email'' = Some (JStr user_email)
      \<and> search_users_by_email e user_email = Inr search_results
      \<and> list_all user_record search_results
      \<and> list_all (\<lambda>user. login_of user \<noteq> Some (JStr user_email)) search_results
    \<longrightarrow> initiate_upload e param_dict
        = (Inr (make_callback_dictionary param_dict STATUS_ERROR
                  (JStr (''User '' @ user_email @ '' not found.''))),
           callbacks (py_get param_dict ''callback_url'')
             (make_callback_dictionary param_dict STATUS_ERROR
                (JStr (''User '' @ user_email @ '' not found.'')))))
   \<and> (get_canvas_user_id e login = Inr user_id
    \<longrightarrow> (\<exists>results user.
           search_users_by_email e login = Inr results \<and> JObj user \<in> set results
           \<and> user ''login_id'' = Some (JStr login) \<and> user ''id'' = Some user_id))"
  proof (intro conjI impI)
    assume a: "param_dict ''file_url'' = Some (JStr file_url)
        \<and> param_dict ''file_display_name'' = Some (JStr display_name)
        \<and> param_dict ''user_email'' = Some (JStr user_email)
        \<and> search_users_by_email e user_email = Inr search_results
        \<and> list_all user_record search_results
        \<and> list_all (\<lambda>user. login_of user \<noteq> Some (JStr user_email)) search_results"
    then have "search_users_by_email e user_email = Inr search_results"
      and "list_all user_record search_results"
      and "list_all (\<lambda>user. login_of user \<noteq> Some (JStr user_email)) search_results"
      by simp_all
    then have nf: "get_canvas_user_id e user_email
           = Inl (UserNotFoundException (JStr (''User '' @ user_email @ '' not found.'')))"
      by (rule user_not_found)
    from a have "param_dict ''file_url'' = Some (JStr file_url)"
      and "param_dict ''file_display_name'' = Some (JStr display_name)"
      and "param_dict ''user_email'' = Some (JStr user_email)"
      by simp_all
    then have "initiate_upload e param_dict
           = initiate_upload_except e param_dict (py_get param_dict ''callback_url'') None
               (UserNotFoundException (JStr (''User '' @ user_email @ '' not found.'')))"
      using nf by (rule initiate_upload_unresolved)
    then show "initiate_upload e param_dict
          = (Inr (make_callback_dictionary param_dict STATUS_ERROR
                    (JStr (''User '' @ user_email @ '' not found.''))),
             callbacks (py_get param_dict ''callback_url'')
               (make_callback_dictionary param_dict STATUS_ERROR
                  (JStr (''User '' @ user_email @ '' not found.''))))"
      by (simp add: report_eq)
  next
    assume "get_canvas_user_id e login = Inr user_id"
    then show "\<exists>results user.
             search_users_by_email e login = Inr results \<and> JObj user \<in> set results
             \<and> user ''login_id'' = Some (JStr login) \<and> user ''id'' = Some user_id"
      by (rule user_found_exactly)
  qed
  then show ?thesis
    by (simp only: make_callback_dictionary_def)
qed

theorem only_an_exact_login_resolves_the_user_witness:
  "search_users_by_email demo_env ''a@B.com''
     = Inr [JObj [''id'' \<mapsto> JInt 654, ''login_id'' \<mapsto> JStr ''a@b.com''],
            JObj [''id'' \<mapsto> JInt 655, ''login_id'' \<mapsto> JStr ''A@B.com'']]
   \<and> initiate_upload demo_env other_case_params
       = (Inr (other_case_params(''status_flag'' \<mapsto> JInt STATUS_ERROR, ''status_msg'' \<mapsto> JStr ''User a@B.com not found.'')),
          [CallbackPost ''https://client/done''
             (other_case_params(''status_flag'' \<mapsto> JInt STATUS_ERROR, ''status_msg'' \<mapsto> JStr ''User a@B.com not found.''))])
   \<and> str_contains ''a@b.co'' ''a@b.com''
   \<and> initiate_upload demo_env partial_email_params
       = (Inr (partial_email_params(''status_flag'' \<mapsto> JInt STATUS_ERROR, ''status_msg'' \<mapsto> JStr ''User a@b.co not found.'')),
          [CallbackPost ''https://client/done''
             (partial_email_params(''status_flag'' \<mapsto> JInt STATUS_ERROR, ''status_msg'' \<mapsto> JStr ''User a@b.co not found.''))])
   \<and> get_canvas_user_id demo_env ''a@b.com'' = Inr (JInt 654)
   \<and> (\<exists>results user.
         search_users_by_email demo_env ''a@b.com'' = Inr results \<and> JObj user \<in> set results
         \<and> user ''login_id'' = Some (JStr ''a@b.com'') \<and> user ''id'' = Some (JInt 654))"
proof -
  let ?users = "[JObj [''id'' \<mapsto> JInt 654, ''login_id'' \<mapsto> JStr ''a@b.com''],
                 JObj [''id'' \<mapsto> JInt 655, ''login_id'' \<mapsto> JStr ''A@B.com'']]"
  have a: "other_case_params ''file_url'' = Some (JStr ''https://host/clip.mp4'')
      \<and> other_case_params ''file_display_name'' = Some (JStr ''clip.mp4'')
      \<and> other_case_params ''user_email'' = Some (JStr ''a@B.com'')
      \<and> search_users_by_email demo_env ''a@B.com'' = Inr ?users
      \<and> list_all user_record ?users
      \<and> list_all (\<lambda>user. login_of user \<noteq> Some (JStr ''a@B.com'')) ?users"
    by (simp add: other_case_params_def upload_params_def demo_env_def)
  have b: "partial_email_params ''file_url'' = Some (JStr ''https://host/clip.mp4'')
      \<and> partial_email_params ''file_display_name'' = Some (JStr ''clip.mp4'')
      \<and> partial_email_params ''user_email'' = Some (JStr ''a@b.co'')
      \<and> search_users_by_email demo_env ''a@b.co'' = Inr ?users
      \<and> list_all user_record ?users
      \<and> list_all (\<lambda>user. login_of user \<noteq> Some (JStr ''a@b.co'')) ?users"
    by (simp add: partial_email_params_def upload_params_def demo_env_def)
  have c1: "py_get other_case_params ''callback_url'' = JStr ''https://client/done''"
    and c2: "py_get partial_email_params ''callback_url'' = JStr ''https://client/done''"
    by (simp_all add: py_get_def other_case_params_def partial_email_params_def upload_params_def)
  have s: "str_contains ''a@b.co'' ''a@b.com''"
    by simp
  from only_an_exact_login_resolves_the_user
         [where param_dict = other_case_params and e = demo_env and search_results = "?users",
          THEN conjunct1, THEN mp, OF a]
       only_an_exact_login_resolves_the_user
         [where param_dict = partial_email_params and e = demo_env and search_results = "?users",
          THEN conjunct1, THEN mp, OF b]
       only_an_exact_login_resolves_the_user
         [where e = demo_env and param_dict = upload_params, THEN conjunct2, THEN mp, OF demo_user_id]
       a c1 c2 s demo_user_id
  show ?thesis
    by simp
qed

end
